theory Spec2Isabelle
  imports Main "HOL-Library.Sublist"
begin

section \<open>JavaScript values and strings\<close>

text \<open>
  The commands read their arguments from \<open>args.options\<close>, an object whose properties are
  the options given on the command line. A property that was not given is \<open>undefined\<close>;
  a property that was given holds a string or, for a flag, a boolean.
\<close>

datatype val = Str string | Bool bool

type_synonym options = "string \<Rightarrow> val option"

text \<open>The truthiness test of \<open>if (x)\<close> and \<open>!x\<close>.\<close>

fun truthy :: "val option \<Rightarrow> bool" where
  "truthy None = False"
| "truthy (Some (Str s)) = (s \<noteq> [])"
| "truthy (Some (Bool b)) = b"

text \<open>The string a value becomes inside a template literal \<open>`${x}`\<close>.\<close>

fun toStr :: "val option \<Rightarrow> string" where
  "toStr None = ''undefined''"
| "toStr (Some (Str s)) = s"
| "toStr (Some (Bool b)) = (if b then ''true'' else ''false'')"

text \<open>\<open>Array.prototype.join\<close> on an array of strings.\<close>

fun array_join :: "string \<Rightarrow> string list \<Rightarrow> string" where
  "array_join sep [] = []"
| "array_join sep [x] = x"
| "array_join sep (x # y # ys) = x @ sep @ array_join sep (y # ys)"

text \<open>\<open>String.prototype.includes\<close>: the argument occurs as a contiguous part.\<close>

fun startsWith :: "string \<Rightarrow> string \<Rightarrow> bool" where
  "startsWith s [] = True"
| "startsWith [] (p # ps) = False"
| "startsWith (c # s) (p # ps) = (c = p \<and> startsWith s ps)"

fun str_includes :: "string \<Rightarrow> string \<Rightarrow> bool" where
  "str_includes [] p = (p = [])"
| "str_includes (c # s) p = (if startsWith (c # s) p then True else str_includes s p)"

section \<open>JSON values and the errors of the engine\<close>

text \<open>
  The value \<open>JSON.parse\<close> gives for a text. Numbers are only tested for being zero, so
  they are integers here. An object is the list of its properties in their order.
\<close>

datatype jsonval =
    JNull
  | JBool bool
  | JNumber int
  | JString string
  | JArray "jsonval list"
  | JObject "(string \<times> jsonval) list"

text \<open>
  The \<open>TypeError\<close>s the commands can run into on a parsed value: reading a property of
  \<open>null\<close>, creating a property on a primitive value (an error in strict mode, which
  the compiled modules run in), and calling a property that is not a function. How the
  engine words them is not part of the model.
\<close>

datatype typeError =
    ReadOfNull string
  | CreateOnPrimitive string
  | NotAFunction string

text \<open>
  Reading a property: of \<open>null\<close> it throws a \<open>TypeError\<close>, of an object it gives the
  property or \<open>undefined\<close>, of anything else a JSON text can denote it gives
  \<open>undefined\<close> for the property names the commands read (\<open>name\<close>, \<open>apps\<close>,
  \<open>appId\<close>).
\<close>

fun getProperty :: "jsonval \<Rightarrow> string \<Rightarrow> typeError + jsonval option" where
  "getProperty JNull k = Inl (ReadOfNull k)"
| "getProperty (JObject kvs) k = Inr (map_of kvs k)"
| "getProperty v k = Inr None"

fun jsonTruthy :: "jsonval option \<Rightarrow> bool" where
  "jsonTruthy None = False"
| "jsonTruthy (Some JNull) = False"
| "jsonTruthy (Some (JBool b)) = b"
| "jsonTruthy (Some (JNumber n)) = (n \<noteq> 0)"
| "jsonTruthy (Some (JString s)) = (s \<noteq> [])"
| "jsonTruthy (Some v) = True"

text \<open>The assignment \<open>o[k] = v\<close> on the properties of an object.\<close>

fun setProperty :: "string \<Rightarrow> jsonval \<Rightarrow> (string \<times> jsonval) list \<Rightarrow> (string \<times> jsonval) list" where
  "setProperty k v [] = [(k, v)]"
| "setProperty k v (kv # kvs) =
     (if fst kv = k then (k, v) # kvs else kv # setProperty k v kvs)"

section \<open>Rejections, errors and the two output channels\<close>

text \<open>
  A promise is rejected, or a \<open>try\<close> block left, with a message the command itself
  wrote (\<open>Promise.reject(`...`)\<close>, \<open>throw `...`\<close>), with whatever the request layer
  rejected with, kept as an opaque payload, or with a \<open>TypeError\<close> the engine threw.
\<close>

datatype rejection = Message string | Upstream string | Thrown typeError

datatype CommandError = CommandError string

text \<open>
  \<open>logger.log\<close> writes to the result channel, \<open>logger.logToStderr\<close> to the diagnostic
  channel. A logger is the pair of what was written to each, oldest first.
\<close>

record 'r logger =
  logged :: "'r list"
  stderr :: "string list"

definition emptyLogger :: "'r logger" where
  "emptyLogger = \<lparr>logged = [], stderr = []\<rparr>"

definition log :: "'r \<Rightarrow> 'r logger \<Rightarrow> 'r logger" where
  "log r l = l\<lparr>logged := logged l @ [r]\<rparr>"

definition logToStderr :: "string \<Rightarrow> 'r logger \<Rightarrow> 'r logger" where
  "logToStderr m l = l\<lparr>stderr := stderr l @ [m]\<rparr>"

text \<open>
  What every Graph command inherits or finds built in, as parameters: the resource URL,
  the verbosity flags, \<open>encodeURIComponent\<close>, and the extraction of a message from a
  rejection.
\<close>

record graph =
  resource :: string
  verbose :: bool
  debug :: bool
  encodeURIComponent :: "string \<Rightarrow> string"
  extractMessage :: "rejection \<Rightarrow> string"

text \<open>
  Modelled from the spec: \<open>handleRejectedODataJsonPromise\<close> of the base command class,
  which is not among the sources. It is the error normalizer of the specification (4.6):
  it raises the one error of the invocation, a \<open>CommandError\<close> carrying the message
  extracted from the rejection.
\<close>

definition handleRejectedODataJsonPromise :: "graph \<Rightarrow> rejection \<Rightarrow> CommandError" where
  "handleRejectedODataJsonPromise g err = CommandError (extractMessage g err)"

section \<open>aad sp get\<close>





section \<open>aad app get: the lookup\<close>

text \<open>The URL of \<open>requestOptions\<close> in \<open>getAppObjectId\<close>.\<close>

definition appFilter :: "graph \<Rightarrow> options \<Rightarrow> string" where
  "appFilter g opts =
     (if truthy (opts ''appId'')
      then ''appId eq '' @ [CHR 0x27] @ encodeURIComponent g (toStr (opts ''appId'')) @ [CHR 0x27]
      else ''displayName eq '' @ [CHR 0x27] @ encodeURIComponent g (toStr (opts ''name'')) @ [CHR 0x27])"

definition appRequestOptions :: "graph \<Rightarrow> options \<Rightarrow> string" where
  "appRequestOptions g opts =
     resource g @ ''/v1.0/myorganization/applications?$filter='' @ appFilter g opts
       @ ''&$select=id''"

definition applicationIdentifier :: "options \<Rightarrow> string" where
  "applicationIdentifier opts =
     (if truthy (opts ''appId'') then ''ID '' @ toStr (opts ''appId'')
      else ''name '' @ toStr (opts ''name''))"

definition getAppObjectId ::
  "graph \<Rightarrow> (string \<Rightarrow> rejection + string list) \<Rightarrow> options \<Rightarrow> rejection + string" where
  "getAppObjectId g request_get opts =
     (if truthy (opts ''objectId'') then Inr (toStr (opts ''objectId''))
      else case request_get (appRequestOptions g opts) of
             Inl err \<Rightarrow> Inl err
           | Inr res_value \<Rightarrow>
               (case res_value of
                  [a] \<Rightarrow> Inr a
                | [] \<Rightarrow> Inl (Message (''No Azure AD application registration with ''
                              @ applicationIdentifier opts @ '' found''))
                | _ \<Rightarrow> Inl (Message (''Multiple Azure AD application registration with name ''
                              @ toStr (opts ''name'')
                              @ '' found. Please disambiguate (app object IDs): ''
                              @ array_join '', '' res_value))))"

section \<open>teams channel get: the lookup\<close>



section \<open>The local registration file\<close>

text \<open>
  The file \<open>.m365rc.json\<close> in the working directory: its contents (\<open>None\<close> when it
  does not exist) and the history of what \<open>fs.writeFileSync\<close> was called with.
  \<open>fs.readFileSync\<close> and \<open>fs.writeFileSync\<close> throw on failure; which failure
  occurs, if any, is part of the disk, and so is what a write that throws leaves of the
  file (as it was, truncated, or partly written), given the old contents and the text.
\<close>

record disk =
  contents :: "string option"
  writes :: "string list"
  readError :: "string option"
  writeError :: "string option"
  failedWrite :: "string option \<Rightarrow> string \<Rightarrow> string option"

definition filePath :: string where
  "filePath = ''.m365rc.json''"

definition existsSync :: "disk \<Rightarrow> bool" where
  "existsSync d = (contents d \<noteq> None)"

definition readFileSync :: "disk \<Rightarrow> string + string" where
  "readFileSync d =
     (case readError d of
        Some e \<Rightarrow> Inl e
      | None \<Rightarrow> (case contents d of None \<Rightarrow> Inl ''ENOENT'' | Some c \<Rightarrow> Inr c))"

text \<open>The error thrown, if any, and the disk after the call.\<close>

definition writeFileSync :: "string \<Rightarrow> disk \<Rightarrow> string option \<times> disk" where
  "writeFileSync c d =
     (case writeError d of
        Some e \<Rightarrow> (Some e, d\<lparr>contents := failedWrite d (contents d) c, writes := writes d @ [c]\<rparr>)
      | None \<Rightarrow> (None, d\<lparr>contents := Some c, writes := writes d @ [c]\<rparr>))"

text \<open>
  \<open>JSON.parse\<close> and \<open>JSON.stringify\<close> are built-ins and parameters here.
  \<open>JSON.parse\<close> throws on text that is not JSON, and gives whatever value the text
  denotes otherwise: the commands declare it an \<open>M365RcJson\<close>, but nothing checks
  that.
\<close>

record json =
  JSON_parse :: "string \<Rightarrow> string + jsonval"
  JSON_stringify :: "jsonval \<Rightarrow> string"

text \<open>The object literal \<open>{ appId: ..., name: ... }\<close> the commands push.\<close>

definition appEntry :: "string \<Rightarrow> string \<Rightarrow> jsonval" where
  "appEntry i n = JObject [(''appId'', JString i), (''name'', JString n)]"

text \<open>
  \<open>if (!m365rc.apps) { m365rc.apps = []; }\<close> followed by a read of \<open>m365rc.apps\<close>:
  the value of the property afterwards, or the \<open>TypeError\<close> thrown. Reading \<open>apps\<close>
  of \<open>null\<close> throws; a primitive value has no \<open>apps\<close> and takes none; an array has
  no \<open>apps\<close> and, being an object, takes the empty one.
\<close>

fun appsProperty :: "jsonval \<Rightarrow> typeError + jsonval" where
  "appsProperty JNull = Inl (ReadOfNull ''apps'')"
| "appsProperty (JObject kvs) =
     (case map_of kvs ''apps'' of
        None \<Rightarrow> Inr (JArray [])
      | Some a \<Rightarrow> if jsonTruthy (Some a) then Inr a else Inr (JArray []))"
| "appsProperty (JArray xs) = Inr (JArray [])"
| "appsProperty v = Inl (CreateOnPrimitive ''apps'')"

text \<open>
  \<open>m365rc\<close> as \<open>JSON.stringify\<close> sees it once its \<open>apps\<close> is the given array: an
  object has the property set; of an array only the elements are written, so the
  property does not show.
\<close>

fun withApps :: "jsonval \<Rightarrow> jsonval \<Rightarrow> jsonval" where
  "withApps a (JObject kvs) = JObject (setProperty ''apps'' a kvs)"
| "withApps a v = v"

text \<open>
  \<open>apps.some(a => a.appId === appId)\<close> on the elements of an array: reading \<open>appId\<close>
  of a \<open>null\<close> element throws, an object element matches when its \<open>appId\<close> is the
  string, any other element has no \<open>appId\<close>.
\<close>

fun some_appId :: "string \<Rightarrow> jsonval list \<Rightarrow> typeError + bool" where
  "some_appId i [] = Inr False"
| "some_appId i (JNull # rest) = Inl (ReadOfNull ''appId'')"
| "some_appId i (JObject r # rest) =
     (if map_of r ''appId'' = Some (JString i) then Inr True else some_appId i rest)"
| "some_appId i (v # rest) = some_appId i rest"


definition emptyObject :: jsonval where
  "emptyObject = JObject []"

definition errorReading :: "string \<Rightarrow> string" where
  "errorReading e = ''Error reading '' @ filePath @ '': '' @ e
     @ ''. Please add app info to '' @ filePath @ '' manually.''"

definition errorWriting :: "string \<Rightarrow> string" where
  "errorWriting e = ''Error writing '' @ filePath @ '': '' @ e
     @ ''. Please add app info to '' @ filePath @ '' manually.''"

text \<open>
  The first half of both \<open>saveAppInfo\<close> functions, from \<open>let m365rc = {}\<close> to the end of
  the \<open>catch\<close>: the value read from the file, or the warning written when reading or
  parsing threw (the function then returns at once).
\<close>

definition readM365rc :: "graph \<Rightarrow> json \<Rightarrow> disk \<Rightarrow> 'r logger \<Rightarrow> 'r logger + (jsonval \<times> 'r logger)" where
  "readM365rc g js d l =
     (if existsSync d
      then let l1 = (if debug g then logToStderr (''Reading existing '' @ filePath @ ''...'') l
                     else l)
           in case readFileSync d of
                Inl e \<Rightarrow> Inl (logToStderr (errorReading e) l1)
              | Inr fileContents \<Rightarrow>
                  if fileContents \<noteq> []
                  then (case JSON_parse js fileContents of
                          Inl e \<Rightarrow> Inl (logToStderr (errorReading e) l1)
                        | Inr m \<Rightarrow> Inr (m, l1))
                  else Inr (emptyObject, l1)
      else Inr (emptyObject, l))"

definition savingMessage :: string where
  "savingMessage = ''Saving Azure AD app registration information to the '' @ filePath
     @ '' file...''"

text \<open>
  The \<open>try\<close> around \<open>fs.writeFileSync\<close>, the same in both \<open>saveAppInfo\<close> functions:
  the disk after the call, and the diagnostic channel with the warning when the write
  threw.
\<close>

definition writeM365rc :: "json \<Rightarrow> jsonval \<Rightarrow> disk \<Rightarrow> 'r logger \<Rightarrow> disk \<times> 'r logger" where
  "writeM365rc js m365rc d l =
     (case writeFileSync (JSON_stringify js m365rc) d of
        (Some e, d') \<Rightarrow> (d', logToStderr (errorWriting e) l)
      | (None, d') \<Rightarrow> (d', l))"

section \<open>aad app get: the command\<close>

record Application =
  appId :: string
  displayName :: string

definition getAppInfo ::
  "graph \<Rightarrow> (string \<Rightarrow> rejection + 'a Application_scheme) \<Rightarrow> string
     \<Rightarrow> rejection + 'a Application_scheme" where
  "getAppInfo g request_get appObjectId =
     request_get (resource g @ ''/v1.0/myorganization/applications/'' @ appObjectId)"

text \<open>
  \<open>AadAppGetCommand.saveAppInfo\<close>. It resolves with the \<open>appInfo\<close> it was given, or
  throws the \<open>TypeError\<close> of a statement outside its \<open>try\<close> blocks; beside that, the
  disk and the channels as it leaves them.
\<close>

definition appGet_saveAppInfo ::
  "graph \<Rightarrow> json \<Rightarrow> options \<Rightarrow> 'a Application_scheme \<Rightarrow> disk \<Rightarrow> 'r logger
     \<Rightarrow> (typeError + 'a Application_scheme) \<times> disk \<times> 'r logger" where
  "appGet_saveAppInfo g js opts appInfo d l =
     (if \<not> truthy (opts ''save'') then (Inr appInfo, d, l)
      else let l0 = (if verbose g then logToStderr savingMessage l else l)
           in case readM365rc g js d l0 of
                Inl l1 \<Rightarrow> (Inr appInfo, d, l1)
              | Inr (m365rc, l1) \<Rightarrow>
                  (case appsProperty m365rc of
                     Inl e \<Rightarrow> (Inl e, d, l1)
                   | Inr (JArray xs) \<Rightarrow>
                       (case some_appId (Application.appId appInfo) xs of
                          Inl e \<Rightarrow> (Inl e, d, l1)
                        | Inr True \<Rightarrow> (Inr appInfo, d, l1)
                        | Inr False \<Rightarrow>
                            (case writeM365rc js
                                    (withApps
                                       (JArray (xs @ [appEntry (Application.appId appInfo)
                                                        (displayName appInfo)]))
                                       m365rc) d l1 of
                               (d', l2) \<Rightarrow> (Inr appInfo, d', l2)))
                   | Inr notAnArray \<Rightarrow> (Inl (NotAFunction ''some''), d, l1)))"

text \<open>\<open>AadAppGetCommand.commandAction\<close>: the outcome, the disk and the channels.\<close>

definition appGet_commandAction ::
  "graph \<Rightarrow> json \<Rightarrow> (string \<Rightarrow> rejection + string list)
     \<Rightarrow> (string \<Rightarrow> rejection + 'a Application_scheme) \<Rightarrow> options \<Rightarrow> disk
     \<Rightarrow> (CommandError + unit) \<times> disk \<times> 'a Application_scheme logger" where
  "appGet_commandAction g js request_get_ids request_get opts d =
     (case getAppObjectId g request_get_ids opts of
        Inl err \<Rightarrow> (Inl (handleRejectedODataJsonPromise g err), d, emptyLogger)
      | Inr appObjectId \<Rightarrow>
          (case getAppInfo g request_get appObjectId of
             Inl err \<Rightarrow> (Inl (handleRejectedODataJsonPromise g err), d, emptyLogger)
           | Inr appInfo \<Rightarrow>
               (case appGet_saveAppInfo g js opts appInfo d emptyLogger of
                  (Inl e, d', l) \<Rightarrow> (Inl (handleRejectedODataJsonPromise g (Thrown e)), d', l)
                | (Inr res, d', l) \<Rightarrow> (Inr (), d', log res l))))"

section \<open>aad app add: saving the registration\<close>

record AppInfo =
  appId :: string
  id' :: string
  tenantId :: string
  secret :: "string option"
  secrets :: "(string \<times> string) list option"

text \<open>
  \<open>AadAppAddCommand.saveAppInfo\<close>; \<open>appName\<close> is the field \<open>this.appName\<close>, set when
  the registration was created.
\<close>

definition appAdd_saveAppInfo ::
  "graph \<Rightarrow> json \<Rightarrow> string \<Rightarrow> options \<Rightarrow> 'a AppInfo_scheme \<Rightarrow> disk \<Rightarrow> 'r logger
     \<Rightarrow> (typeError + 'a AppInfo_scheme) \<times> disk \<times> 'r logger" where
  "appAdd_saveAppInfo g js appName opts appInfo d l =
     (if \<not> truthy (opts ''save'') then (Inr appInfo, d, l)
      else let l0 = (if verbose g then logToStderr savingMessage l else l)
           in case readM365rc g js d l0 of
                Inl l1 \<Rightarrow> (Inr appInfo, d, l1)
              | Inr (m365rc, l1) \<Rightarrow>
                  (case appsProperty m365rc of
                     Inl e \<Rightarrow> (Inl e, d, l1)
                   | Inr (JArray xs) \<Rightarrow>
                       (case writeM365rc js
                               (withApps
                                  (JArray (xs @ [appEntry (AppInfo.appId appInfo) appName]))
                                  m365rc) d l1 of
                          (d', l2) \<Rightarrow> (Inr appInfo, d', l2))
                   | Inr notAnArray \<Rightarrow> (Inl (NotAFunction ''push''), d, l1)))"

text \<open>The object \<open>commandAction\<close> writes to the result channel.\<close>

record AppAddResult =
  appId :: string
  objectId :: string
  tenantId :: string
  secret :: "string option"
  secrets :: "(string \<times> string) list option"

definition appAddResult :: "'a AppInfo_scheme \<Rightarrow> AppAddResult" where
  "appAddResult a =
     \<lparr>AppAddResult.appId = AppInfo.appId a, objectId = id' a,
      tenantId = AppInfo.tenantId a,
      secret = (case AppInfo.secret a of
                  None \<Rightarrow> None
                | Some s \<Rightarrow> if s \<noteq> [] then Some s else None),
      secrets = AppInfo.secrets a\<rparr>"

text \<open>
  \<open>AadAppAddCommand.commandAction\<close>. The steps before \<open>saveAppInfo\<close> (resolving the
  APIs, creating and configuring the registration) go through the request layer; their
  joint outcome is the parameter \<open>configured\<close>: the rejection that ended them, or the
  registration's \<open>appInfo\<close>, whose \<open>appId\<close> is the one the directory gave the
  registration it has just created.
\<close>

definition appAdd_commandAction ::
  "graph \<Rightarrow> json \<Rightarrow> string \<Rightarrow> (rejection + 'a AppInfo_scheme) \<Rightarrow> options \<Rightarrow> disk
     \<Rightarrow> (CommandError + unit) \<times> disk \<times> AppAddResult logger" where
  "appAdd_commandAction g js appName configured opts d =
     (case configured of
        Inl err \<Rightarrow> (Inl (handleRejectedODataJsonPromise g err), d, emptyLogger)
      | Inr appInfo \<Rightarrow>
          (case appAdd_saveAppInfo g js appName opts appInfo d emptyLogger of
             (Inl e, d', l) \<Rightarrow> (Inl (handleRejectedODataJsonPromise g (Thrown e)), d', l)
           | (Inr appInfo', d', l) \<Rightarrow> (Inr (), d', log (appAddResult appInfo') l)))"

section \<open>Example inputs\<close>

text \<open>
  The wording V8 gives the \<open>TypeError\<close> of a read of \<open>null\<close>, as the error's
  \<open>message\<close> and as the error written in a template literal. The two other errors
  also name the value or the expression at fault, which the examples do not reach.
\<close>

fun v8Message :: "typeError \<Rightarrow> string" where
  "v8Message (ReadOfNull k) =
     ''Cannot read properties of null (reading '' @ [CHR 0x27] @ k @ [CHR 0x27] @ '')''"
| "v8Message (CreateOnPrimitive k) =
     ''Cannot create property '' @ [CHR 0x27] @ k @ [CHR 0x27]"
| "v8Message (NotAFunction k) = k @ '' is not a function''"

definition v8Describe :: "typeError \<Rightarrow> string" where
  "v8Describe e = ''TypeError: '' @ v8Message e"

text \<open>
  A Graph context that is neither verbose nor in debug mode, whose
  \<open>encodeURIComponent\<close> leaves its argument as it is (the examples use unreserved
  characters only) and whose error message is the rejection's own text; and a request
  layer that answers every lookup with no match, or with the two matches \<open>id1\<close>,
  \<open>id2\<close>.
\<close>

fun messageOf :: "rejection \<Rightarrow> string" where
  "messageOf (Message m) = m"
| "messageOf (Upstream u) = u"
| "messageOf (Thrown e) = v8Message e"

definition exampleGraph :: graph where
  "exampleGraph = \<lparr>resource = ''https://graph.microsoft.com'', verbose = False, debug = False,
     encodeURIComponent = id, extractMessage = messageOf\<rparr>"

definition noMatches :: "string \<Rightarrow> rejection + string list" where
  "noMatches url = Inr []"


text \<open>
  An example codec: \<open>exampleStringify\<close> writes an object's only property, the name
  and then the records one after the other, and \<open>exampleParse\<close> reads back the files
  the examples hold, reads \<open>null\<close>, and rejects everything else as a syntax error.
\<close>

fun renderApp :: "jsonval \<Rightarrow> string" where
  "renderApp (JObject [(k1, JString i), (k2, JString n)]) = i @ ''='' @ n @ '';''"
| "renderApp v = ''?;''"

fun renderApps :: "jsonval list \<Rightarrow> string" where
  "renderApps [] = []"
| "renderApps (a # rest) = renderApp a @ renderApps rest"

fun exampleStringify :: "jsonval \<Rightarrow> string" where
  "exampleStringify JNull = ''null''"
| "exampleStringify (JObject [(k, JArray xs)]) = k @ '':'' @ renderApps xs"
| "exampleStringify v = ''?''"

definition exampleParse :: "string \<Rightarrow> string + jsonval" where
  "exampleParse s =
     (if s = ''apps:A=My app;''
      then Inr (JObject [(''apps'', JArray [appEntry ''A'' ''My app''])])
      else if s = ''apps:B=Other app;''
      then Inr (JObject [(''apps'', JArray [appEntry ''B'' ''Other app''])])
      else if s = ''null''
      then Inr JNull
      else Inl ''SyntaxError: Unexpected token in JSON'')"

definition exampleJson :: json where
  "exampleJson = \<lparr>JSON_parse = exampleParse, JSON_stringify = exampleStringify\<rparr>"

definition saveOptions :: options where
  "saveOptions = map_of [(''objectId'', Str ''O''), (''save'', Bool True)]"

definition exampleApplication :: Application where
  "exampleApplication = \<lparr>Application.appId = ''A'', displayName = ''My app''\<rparr>"

definition exampleAppInfo :: AppInfo where
  "exampleAppInfo = \<lparr>AppInfo.appId = ''A'', id' = ''O'', tenantId = ''T'',
     secret = None, secrets = None\<rparr>"

definition found :: "string \<Rightarrow> rejection + Application" where
  "found url = Inr exampleApplication"

text \<open>
  Example disks, on which a write that throws would leave the file as it was: no file; a
  file that already lists the app \<open>A\<close>; a file that lists another app; a file that
  holds \<open>null\<close>.
\<close>

definition keepsFile :: "string option \<Rightarrow> string \<Rightarrow> string option" where
  "keepsFile old c = old"

definition noFile :: disk where
  "noFile = \<lparr>contents = None, writes = [], readError = None, writeError = None,
     failedWrite = keepsFile\<rparr>"

definition fileWithA :: disk where
  "fileWithA = \<lparr>contents = Some ''apps:A=My app;'', writes = [], readError = None,
     writeError = None, failedWrite = keepsFile\<rparr>"


definition fileWithNull :: disk where
  "fileWithNull = \<lparr>contents = Some ''null'', writes = [], readError = None,
     writeError = None, failedWrite = keepsFile\<rparr>"

section \<open>aad app add: granting admin consent\<close>

text \<open>
  The permissions \<open>this.appPermissions\<close> holds when \<open>grantAdminConsent\<close> runs, and the
  options of a POST request: its URL, its headers and the properties of its body
  (\<open>None\<close> for \<open>null\<close>).
\<close>

record ResourceAccess =
  id' :: string
  type' :: string

record AppPermissions =
  resourceId :: string
  resourceAccess :: "ResourceAccess list"
  scope :: "string list"

record requestOptions =
  url' :: string
  headers :: "(string \<times> string) list"
  data :: "(string \<times> string option) list"

text \<open>
  The request options of \<open>createServicePrincipal\<close>, \<open>grantOAuth2Permission\<close> and
  \<open>addRoleToServicePrincipal\<close>; each function posts them at once and returns the
  promise of the response.
\<close>

definition createServicePrincipal :: "graph \<Rightarrow> string \<Rightarrow> requestOptions" where
  "createServicePrincipal g app_id =
     \<lparr>url' = resource g @ ''/v1.0/myorganization/servicePrincipals'',
      headers = [(''content-type'', ''application/json'')],
      data = [(''appId'', Some app_id)]\<rparr>"

definition grantOAuth2Permission :: "graph \<Rightarrow> string \<Rightarrow> string \<Rightarrow> string \<Rightarrow> requestOptions" where
  "grantOAuth2Permission g app_id resource_id scopeName =
     \<lparr>url' = resource g @ ''/v1.0/myorganization/oauth2PermissionGrants'',
      headers = [(''accept'', ''application/json;odata.metadata=none'')],
      data = [(''clientId'', Some app_id), (''consentType'', Some ''AllPrincipals''),
              (''principalId'', None), (''resourceId'', Some resource_id),
              (''scope'', Some scopeName)]\<rparr>"

definition addRoleToServicePrincipal :: "graph \<Rightarrow> string \<Rightarrow> string \<Rightarrow> string \<Rightarrow> requestOptions" where
  "addRoleToServicePrincipal g object_id resource_id appRoleId =
     \<lparr>url' = resource g @ ''/v1.0/myorganization/servicePrincipals/'' @ object_id
             @ ''/appRoleAssignments'',
      headers = [(''Content-Type'', ''application/json'')],
      data = [(''appRoleId'', Some appRoleId), (''principalId'', Some object_id),
              (''resourceId'', Some resource_id)]\<rparr>"

text \<open>
  What the body of \<open>this.appPermissions.forEach\<close> pushes onto \<open>tasks\<close> for one
  permission, in the order it pushes, and the lines it writes in debug mode.
\<close>

definition permissionTasks :: "graph \<Rightarrow> string \<Rightarrow> AppPermissions \<Rightarrow> requestOptions list" where
  "permissionTasks g spId permission =
     (if length (scope permission) > 0
      then [grantOAuth2Permission g spId (resourceId permission)
              (array_join '' '' (scope permission))]
      else [])
     @ map (\<lambda>access. addRoleToServicePrincipal g spId (resourceId permission)
              (ResourceAccess.id' access))
         (filter (\<lambda>access. type' access = ''Role'')
            (resourceAccess permission))"

definition permissionLines :: "AppPermissions \<Rightarrow> string list" where
  "permissionLines permission =
     (if length (scope permission) > 0
      then [''Admin consent granted for following resource '' @ resourceId permission
              @ '', with delegated permissions: '' @ array_join '','' (scope permission)]
      else [])
     @ map (\<lambda>access. ''Admin consent granted for following resource ''
              @ resourceId permission @ '', with application permission: ''
              @ ResourceAccess.id' access)
         (filter (\<lambda>access. type' access = ''Role'')
            (resourceAccess permission))"

definition consentTasks :: "graph \<Rightarrow> string \<Rightarrow> AppPermissions list \<Rightarrow> requestOptions list" where
  "consentTasks g spId appPermissions = concat (map (permissionTasks g spId) appPermissions)"

text \<open>
  A promise, by the time at which it settles and how. \<open>request.post\<close> is a parameter:
  for each request, how long the response takes and what it is. A request posted at
  time \<open>t\<close> gives the promise that settles that much later.
\<close>

type_synonym 'a promise = "nat \<times> (rejection + 'a)"

definition posted :: "(requestOptions \<Rightarrow> nat \<times> (rejection + string)) \<Rightarrow> nat \<Rightarrow> requestOptions
    \<Rightarrow> string promise" where
  "posted request_post t options = (t + fst (request_post options), snd (request_post options))"

text \<open>
  \<open>Promise.all\<close>, a built-in: it is rejected as soon as one of the promises is, with
  that promise's rejection (of two that are rejected at the same time, the earlier in
  the array), and is fulfilled once all of them are, at time \<open>t\<close> when there is none.
\<close>

fun firstRejection :: "'a promise list \<Rightarrow> (nat \<times> rejection) option" where
  "firstRejection [] = None"
| "firstRejection ((t, Inr v) # ps) = firstRejection ps"
| "firstRejection ((t, Inl err) # ps) =
     (case firstRejection ps of
        None \<Rightarrow> Some (t, err)
      | Some (t', err') \<Rightarrow> if t' < t then Some (t', err') else Some (t, err))"

definition promiseAll :: "nat \<Rightarrow> 'a promise list \<Rightarrow> unit promise" where
  "promiseAll t ps =
     (case firstRejection ps of
        Some (t', err) \<Rightarrow> (t', Inl err)
      | None \<Rightarrow> (fold max (map fst ps) t, Inr ()))"

text \<open>
  The array \<open>tasks\<close> when \<open>Promise.all\<close> receives it: the promise of each request,
  all posted at time \<open>t\<close>, when the service principal \<open>spId\<close> exists.
\<close>

definition tasks ::
  "graph \<Rightarrow> (requestOptions \<Rightarrow> nat \<times> (rejection + string)) \<Rightarrow> string \<Rightarrow> AppPermissions list
     \<Rightarrow> nat \<Rightarrow> string promise list" where
  "tasks g request_post spId appPermissions t =
     map (posted request_post t) (consentTasks g spId appPermissions)"

text \<open>
  What \<open>grantAdminConsent\<close> does: the requests it posts, each with the time at which
  it is posted, the promise it returns, and the channels.
\<close>

record ('a, 'r) granting =
  requests :: "(nat \<times> requestOptions) list"
  granted :: "'a promise"
  channels :: "'r logger"

text \<open>
  \<open>grantAdminConsent\<close>, called at time \<open>now\<close>. The service principal is created
  first; when that promise is fulfilled, at time \<open>t\<close>, every task is posted, one after
  the other without a wait in between, and \<open>Promise.all\<close> of the tasks gives the
  result.
\<close>

definition grantAdminConsent ::
  "graph \<Rightarrow> (requestOptions \<Rightarrow> nat \<times> (rejection + string)) \<Rightarrow> AppPermissions list
     \<Rightarrow> 'a AppInfo_scheme \<Rightarrow> val option \<Rightarrow> nat \<Rightarrow> 'r logger
     \<Rightarrow> ('a AppInfo_scheme, 'r) granting" where
  "grantAdminConsent g request_post appPermissions appInfo adminConsent now l =
     (if \<not> truthy adminConsent \<or> length appPermissions = 0
      then \<lparr>requests = [], granted = (now, Inr appInfo), channels = l\<rparr>
      else case posted request_post now (createServicePrincipal g (AppInfo.appId appInfo)) of
             (t, Inl err) \<Rightarrow>
               \<lparr>requests = [(now, createServicePrincipal g (AppInfo.appId appInfo))],
                granted = (t, Inl err), channels = l\<rparr>
           | (t, Inr spId) \<Rightarrow>
               \<lparr>requests = (now, createServicePrincipal g (AppInfo.appId appInfo))
                   # map (Pair t) (consentTasks g spId appPermissions),
                granted =
                  (case promiseAll t (tasks g request_post spId appPermissions t) of
                     (t', Inl err) \<Rightarrow> (t', Inl err)
                   | (t', Inr u) \<Rightarrow> (t', Inr appInfo)),
                channels =
                  (if debug g
                   then fold logToStderr
                          ((''Service principal created, returned object id: '' @ spId)
                           # concat (map permissionLines appPermissions)) l
                   else l)\<rparr>)"

text \<open>
  Example inputs for the consent: one resource with a delegated permission and two
  application permissions, which makes three tasks, and a request layer that creates
  the service principal \<open>SP\<close> in one unit of time, refuses the role \<open>r1\<close> after one
  unit, and grants everything else after five.
\<close>

definition threePermissions :: "AppPermissions list" where
  "threePermissions =
     [\<lparr>resourceId = ''R'',
       resourceAccess = [\<lparr>id' = ''s1'', type' = ''Scope''\<rparr>, \<lparr>id' = ''r1'', type' = ''Role''\<rparr>,
                         \<lparr>id' = ''r2'', type' = ''Role''\<rparr>],
       scope = [''User.Read'']\<rparr>]"

definition refusesR1 :: "requestOptions \<Rightarrow> nat \<times> (rejection + string)" where
  "refusesR1 options =
     (if map_of (data options) ''appId'' = Some (Some ''A'') then (1, Inr ''SP'')
      else if map_of (data options) ''appRoleId'' = Some (Some ''r1'')
      then (1, Inl (Upstream ''Forbidden''))
      else (5, Inr []))"

definition grantsAll :: "requestOptions \<Rightarrow> nat \<times> (rejection + string)" where
  "grantsAll options =
     (if map_of (data options) ''appId'' = Some (Some ''A'') then (1, Inr ''SP'')
      else (5, Inr []))"

definition consentOption :: "val option" where
  "consentOption = Some (Bool True)"

section \<open>teams team remove\<close>

text \<open>
  What the command does to the outside, in order: the closure \<open>removeTeam\<close> is entered,
  \<open>Cli.prompt\<close> is called, the group is looked up by display name, the DELETE request
  is sent.
\<close>

record promptOptions =
  type :: string
  name :: string
  default' :: bool
  message :: string

datatype call =
    RemoveTeam
  | PromptCall promptOptions
  | GetGroupByDisplayName "val option"
  | Delete string

fun isPrompt :: "call \<Rightarrow> bool" where
  "isPrompt (PromptCall p) = True"
| "isPrompt c = False"

fun isDelete :: "call \<Rightarrow> bool" where
  "isDelete (Delete url) = True"
| "isDelete c = False"

fun isLookup :: "call \<Rightarrow> bool" where
  "isLookup (GetGroupByDisplayName n) = True"
| "isLookup c = False"

record Group =
  group_id :: string
  resourceProvisioningOptions :: "string list"

text \<open>
  \<open>getTeamId\<close>; \<open>getGroupByDisplayName\<close> is \<open>aadGroup.getGroupByDisplayName\<close> of the
  utilities, a parameter.
\<close>

definition getTeamId ::
  "(val option \<Rightarrow> rejection + Group) \<Rightarrow> options \<Rightarrow> (rejection + string) \<times> call list" where
  "getTeamId getGroupByDisplayName opts =
     (if truthy (opts ''id'') then (Inr (toStr (opts ''id'')), [])
      else (case getGroupByDisplayName (opts ''name'') of
              Inl err \<Rightarrow> Inl err
            | Inr grp \<Rightarrow>
                if ''Team'' \<notin> set (resourceProvisioningOptions grp)
                then Inl (Message ''The specified team does not exist in the Microsoft Teams'')
                else Inr (group_id grp),
            [GetGroupByDisplayName (opts ''name'')]))"

text \<open>The closure \<open>removeTeam\<close>; \<open>request_delete\<close> is \<open>request.delete\<close>.\<close>

definition removeTeam ::
  "graph \<Rightarrow> (val option \<Rightarrow> rejection + Group) \<Rightarrow> (string \<Rightarrow> rejection + unit) \<Rightarrow> options
     \<Rightarrow> (CommandError + unit) \<times> call list" where
  "removeTeam g getGroupByDisplayName request_delete opts =
     (case getTeamId getGroupByDisplayName opts of
        (Inl err, calls) \<Rightarrow> (Inl (handleRejectedODataJsonPromise g err), RemoveTeam # calls)
      | (Inr teamId, calls) \<Rightarrow>
          (case request_delete (resource g @ ''/v1.0/groups/'' @ encodeURIComponent g teamId) of
             Inl err \<Rightarrow>
               (Inl (handleRejectedODataJsonPromise g err),
                RemoveTeam # calls
                  @ [Delete (resource g @ ''/v1.0/groups/'' @ encodeURIComponent g teamId)])
           | Inr u \<Rightarrow>
               (Inr (),
                RemoveTeam # calls
                  @ [Delete (resource g @ ''/v1.0/groups/'' @ encodeURIComponent g teamId)])))"

text \<open>
  The options after the deprecated \<open>teamId\<close> has been copied to \<open>id\<close>, and the prompt
  the command shows.
\<close>

definition withTeamId :: "options \<Rightarrow> options" where
  "withTeamId opts = (if truthy (opts ''teamId'') then opts(''id'' := opts ''teamId'') else opts)"

definition removePrompt :: "options \<Rightarrow> promptOptions" where
  "removePrompt opts =
     \<lparr>type = ''confirm'', name = ''continue'', default' = False,
      message = ''Are you sure you want to remove the team '' @ toStr (opts ''teamId'') @ ''?''\<rparr>"

definition teamIdDeprecated :: string where
  "teamIdDeprecated = ''Option 'teamId' is deprecated. Please use 'id' instead.''"

text \<open>
  \<open>TeamsTeamRemoveCommand.commandAction\<close>. \<open>prompt\<close> is \<open>Cli.prompt\<close>, a parameter,
  giving the \<open>continue\<close> property of the answer; \<open>this.warn\<close> of the base command
  class, which is not among the sources, is taken to write its message to the diagnostic
  channel. The result is the outcome, the two channels (the command
  writes nothing to the result channel), and the calls made.
\<close>

definition teamRemove_commandAction ::
  "graph \<Rightarrow> (promptOptions \<Rightarrow> bool) \<Rightarrow> (val option \<Rightarrow> rejection + Group)
     \<Rightarrow> (string \<Rightarrow> rejection + unit) \<Rightarrow> options
     \<Rightarrow> (CommandError + unit) \<times> unit logger \<times> call list" where
  "teamRemove_commandAction g prompt getGroupByDisplayName request_delete opts =
     (let l = (if truthy (opts ''teamId'')
               then logToStderr teamIdDeprecated emptyLogger
               else emptyLogger)
      in if truthy (withTeamId opts ''confirm'')
         then (case removeTeam g getGroupByDisplayName request_delete (withTeamId opts) of
                 (r, calls) \<Rightarrow> (r, l, calls))
         else if prompt (removePrompt (withTeamId opts))
         then (case removeTeam g getGroupByDisplayName request_delete (withTeamId opts) of
                 (r, calls) \<Rightarrow> (r, l, PromptCall (removePrompt (withTeamId opts)) # calls))
         else (Inr (), l, [PromptCall (removePrompt (withTeamId opts))]))"

text \<open>
  Example inputs for \<open>teams team remove\<close>: a user who declines, a directory in which
  every name is a team, a request layer that deletes, and the options of a removal by id,
  without and with \<open>--confirm\<close>.
\<close>

definition decline :: "promptOptions \<Rightarrow> bool" where
  "decline p = False"

definition anyTeam :: "val option \<Rightarrow> rejection + Group" where
  "anyTeam n = Inr \<lparr>group_id = ''00000000-0000-0000-0000-000000000000'',
     resourceProvisioningOptions = [''Team'']\<rparr>"

definition deleted :: "string \<Rightarrow> rejection + unit" where
  "deleted url = Inr ()"

definition removeById :: options where
  "removeById = map_of [(''id'', Str ''00000000-0000-0000-0000-000000000000'')]"

definition removeByIdConfirmed :: options where
  "removeByIdConfirmed = map_of [(''id'', Str ''00000000-0000-0000-0000-000000000000''),
     (''confirm'', Bool True)]"

section \<open>aad app add: the validator\<close>

text \<open>
  A validator returns \<open>true\<close> or the failure message. Inside a function, \<open>Inl e\<close> is
  the exception \<open>e\<close> being thrown, so that what a \<open>try\<close> block catches and what would
  escape to the caller are both visible.
\<close>

datatype verdict = Pass | Fail string

definition aadApplicationPlatform :: "string list" where
  "aadApplicationPlatform = [''spa'', ''web'', ''publicClient'']"

definition aadAppScopeConsentBy :: "string list" where
  "aadAppScopeConsentBy = [''admins'', ''adminsAndUsers'']"

text \<open>\<open>xs.indexOf(v) < 0\<close> for an array of strings.\<close>

fun notIn :: "string list \<Rightarrow> val option \<Rightarrow> bool" where
  "notIn xs (Some (Str s)) = (s \<notin> set xs)"
| "notIn xs v = True"

text \<open>The checks of the validator up to the certificate file, in the source's order.\<close>

definition optionChecks :: "options \<Rightarrow> verdict" where
  "optionChecks opts =
     (if \<not> truthy (opts ''manifest'') \<and> \<not> truthy (opts ''name'')
      then Fail ''Specify either the name of the app to create or the manifest''
      else if truthy (opts ''platform'') \<and> notIn aadApplicationPlatform (opts ''platform'')
      then Fail (toStr (opts ''platform'')
             @ '' is not a valid value for platform. Allowed values are ''
             @ array_join '', '' aadApplicationPlatform)
      else if truthy (opts ''redirectUris'') \<and> \<not> truthy (opts ''platform'')
      then Fail ''When you specify redirectUris you also need to specify platform''
      else if truthy (opts ''certificateFile'') \<and> truthy (opts ''certificateBase64Encoded'')
      then Fail ''Specify either certificateFile or certificateBase64Encoded but not both''
      else if truthy (opts ''certificateDisplayName'') \<and> \<not> truthy (opts ''certificateFile'')
              \<and> \<not> truthy (opts ''certificateBase64Encoded'')
      then Fail ''When you specify certificateDisplayName you also need to specify certificateFile or certificateBase64Encoded''
      else Pass)"

text \<open>The checks between the certificate file and the manifest.\<close>

definition scopeChecks :: "options \<Rightarrow> verdict" where
  "scopeChecks opts =
     (if truthy (opts ''scopeName'') \<and> \<not> truthy (opts ''uri'')
      then Fail ''When you specify scopeName you also need to specify uri''
      else if truthy (opts ''scopeName'') \<and> \<not> truthy (opts ''scopeAdminConsentDescription'')
      then Fail ''When you specify scopeName you also need to specify scopeAdminConsentDescription''
      else if truthy (opts ''scopeName'') \<and> \<not> truthy (opts ''scopeAdminConsentDisplayName'')
      then Fail ''When you specify scopeName you also need to specify scopeAdminConsentDisplayName''
      else if truthy (opts ''scopeConsentBy'') \<and> notIn aadAppScopeConsentBy (opts ''scopeConsentBy'')
      then Fail (toStr (opts ''scopeConsentBy'')
             @ '' is not a valid value for scopeConsentBy. Allowed values are ''
             @ array_join '', '' aadAppScopeConsentBy)
      else Pass)"

text \<open>
  The body of the \<open>try\<close> block: \<open>this.manifest = JSON.parse(...)\<close>, then the test of
  the names. It throws (\<open>Inl\<close>, with the exception as the \<open>catch\<close> block writes it in
  its template literal), returns a failure message (\<open>Inr (Some ...)\<close>) or falls through
  (\<open>Inr None\<close>); beside it, the field \<open>this.manifest\<close> as the block leaves it.
  \<open>parse\<close> is \<open>JSON.parse\<close>, with the text of the \<open>SyntaxError\<close> it throws;
  \<open>describe\<close> is the engine's wording of a \<open>TypeError\<close>.
\<close>

definition manifestTry ::
  "(string \<Rightarrow> string + jsonval) \<Rightarrow> (typeError \<Rightarrow> string) \<Rightarrow> options \<Rightarrow> jsonval option
     \<Rightarrow> (string + verdict option) \<times> jsonval option" where
  "manifestTry parse describe opts manifest =
     (case parse (toStr (opts ''manifest'')) of
        Inl e \<Rightarrow> (Inl e, manifest)
      | Inr m \<Rightarrow>
          if \<not> truthy (opts ''name'')
          then (case getProperty m ''name'' of
                  Inl e \<Rightarrow> (Inl (describe e), Some m)
                | Inr n \<Rightarrow>
                    if \<not> jsonTruthy n
                    then (Inr (Some (Fail ''Specify the name of the app to create either through the 'name' option or the 'name' property in the manifest'')), Some m)
                    else (Inr None, Some m))
          else (Inr None, Some m))"

text \<open>
  The validator \<open>#initValidators\<close> registers. \<open>fs_existsSync\<close> is \<open>fs.existsSync\<close>, which
  answers \<open>false\<close> rather than throw; \<open>parse\<close> and \<open>describe\<close> are as above. The
  result is what the validator returns, or the exception that escapes it, and the field
  \<open>this.manifest\<close>.
\<close>

definition appAdd_validator ::
  "(string \<Rightarrow> bool) \<Rightarrow> (string \<Rightarrow> string + jsonval) \<Rightarrow> (typeError \<Rightarrow> string) \<Rightarrow> options
     \<Rightarrow> jsonval option \<Rightarrow> (string + verdict) \<times> jsonval option" where
  "appAdd_validator fs_existsSync parse describe opts manifest =
     (case optionChecks opts of
        Fail msg \<Rightarrow> (Inr (Fail msg), manifest)
      | Pass \<Rightarrow>
          if truthy (opts ''certificateFile'')
               \<and> \<not> fs_existsSync (toStr (opts ''certificateFile''))
          then (Inr (Fail ''Certificate file not found''), manifest)
          else (case scopeChecks opts of
                  Fail msg \<Rightarrow> (Inr (Fail msg), manifest)
                | Pass \<Rightarrow>
                    if truthy (opts ''manifest'')
                    then (case manifestTry parse describe opts manifest of
                            (Inl e, manifest') \<Rightarrow>
                              (Inr (Fail (''Error while parsing the specified manifest: '' @ e)),
                               manifest')
                          | (Inr (Some v), manifest') \<Rightarrow> (Inr v, manifest')
                          | (Inr None, manifest') \<Rightarrow> (Inr Pass, manifest'))
                    else (Inr Pass, manifest)))"

text \<open>
  Example inputs for the validator: a directory with no file in it, a parser that rejects
  every text, a parser that reads every text as \<open>null\<close>, and the options naming a
  certificate file and a manifest.
\<close>

definition noSuchFile :: "string \<Rightarrow> bool" where
  "noSuchFile path = False"

definition notJson :: "string \<Rightarrow> string + jsonval" where
  "notJson s = Inl ''SyntaxError: Unexpected token in JSON at position 0''"

definition parsesNull :: "string \<Rightarrow> string + jsonval" where
  "parsesNull s = Inr JNull"

definition withCertificate :: options where
  "withCertificate = map_of [(''name'', Str ''My app''), (''certificateFile'', Str ''cert.cer'')]"

definition withManifest :: options where
  "withManifest = map_of [(''manifest'', Str ''{'')]"

section \<open>The option sets the commands declare\<close>

text \<open>What \<open>#initOptionSets\<close> pushes in \<open>aad sp get\<close>, \<open>aad app get\<close> and
  \<open>teams channel get\<close>.\<close>

definition spGet_optionSets :: "string list list" where
  "spGet_optionSets = [[''appId'', ''displayName'', ''objectId'']]"

definition appGet_optionSets :: "string list list" where
  "appGet_optionSets = [[''appId'', ''objectId'', ''name'']]"

definition channelGet_optionSets :: "string list list" where
  "channelGet_optionSets =
     [[''teamId'', ''teamName''], [''channelId'', ''channelName'', ''primary'']]"

section \<open>The command execution framework\<close>

text \<open>
  Modelled from the spec: the members of an option set that are present in the resolved
  options. The enforcement of option sets is in the base command class, which is not
  among the sources; the commands only declare their sets. The specification (4.2)
  counts, for each set, how many of its listed members are present.
\<close>

definition presentMembers :: "options \<Rightarrow> string list \<Rightarrow> string list" where
  "presentMembers opts optionSet = filter (\<lambda>member. opts member \<noteq> None) optionSet"

text \<open>
  Modelled from the spec: the failure message of the option-set enforcer, of the missing
  base command class, when no member of the set is present. The specification writes it
  as \<open>Specify one of: {members}\<close>; the members are listed in the set's order,
  separated by a comma and a space.
\<close>

definition noneMessage :: "string list \<Rightarrow> string" where
  "noneMessage optionSet = ''Specify one of: '' @ array_join '', '' optionSet"

text \<open>
  Modelled from the spec: the failure message of the same missing enforcer when more than
  one member of the set is present, written \<open>Specify one of {members} but not multiple\<close>
  in the specification.
\<close>

definition multipleMessage :: "string list \<Rightarrow> string" where
  "multipleMessage optionSet =
     ''Specify one of '' @ array_join '', '' optionSet @ '' but not multiple''"

text \<open>
  Modelled from the spec: the check of one option set, of the missing base command
  class: no member present fails, more than one present fails, exactly one passes
  (\<open>None\<close>).
\<close>

definition checkOptionSet :: "options \<Rightarrow> string list \<Rightarrow> string option" where
  "checkOptionSet opts optionSet =
     (if length (presentMembers opts optionSet) = 0 then Some (noneMessage optionSet)
      else if length (presentMembers opts optionSet) > 1 then Some (multipleMessage optionSet)
      else None)"

text \<open>
  Modelled from the spec: the option-set enforcer of the missing base command class. Each
  set of the descriptor is checked on its own; the result is the failures, in the
  descriptor's order, and the enforcement passes when there is none.
\<close>

fun enforceOptionSets :: "options \<Rightarrow> string list list \<Rightarrow> string list" where
  "enforceOptionSets opts [] = []"
| "enforceOptionSets opts (optionSet # rest) =
     (case checkOptionSet opts optionSet of
        None \<Rightarrow> enforceOptionSets opts rest
      | Some failure \<Rightarrow> failure # enforceOptionSets opts rest)"

text \<open>
  Modelled from the spec: a validator, as the missing validation pipeline calls it. It
  reads the resolved options, may set transient state for later stages, and yields
  \<open>None\<close> for pass or its failure string.
\<close>

type_synonym 's validator = "options \<Rightarrow> 's \<Rightarrow> string option \<times> 's"

text \<open>
  Modelled from the spec: the validation pipeline of the missing base command class
  (4.3). The validators run one after the other in registration order, each in the state
  its predecessors left; the first failure string ends the run. The result is the
  positions of the validators that ran, in the order they ran, the failure string if
  any, and the transient state.
\<close>

fun runValidators ::
  "'s validator list \<Rightarrow> nat \<Rightarrow> options \<Rightarrow> 's \<Rightarrow> nat list \<times> string option \<times> 's" where
  "runValidators [] i opts s = ([], None, s)"
| "runValidators (v # vs) i opts s =
     (case v opts s of
        (Some failure, s') \<Rightarrow> ([i], Some failure, s')
      | (None, s') \<Rightarrow>
          (case runValidators vs (Suc i) opts s' of
             (invoked, verdict, s'') \<Rightarrow> (i # invoked, verdict, s'')))"

text \<open>
  Modelled from the spec: the transient state in which the missing pipeline reaches the
  validator at position \<open>k\<close>: the state the validators before it leave when each is
  run in turn.
\<close>

definition stateBefore :: "'s validator list \<Rightarrow> options \<Rightarrow> 's \<Rightarrow> nat \<Rightarrow> 's" where
  "stateBefore vs opts s k = fold (\<lambda>v st. snd (v opts st)) (take k vs) s"

text \<open>
  Modelled from the spec: what the validator at position \<open>k\<close> answers when the missing
  pipeline reaches it.
\<close>

definition answerAt :: "'s validator list \<Rightarrow> options \<Rightarrow> 's \<Rightarrow> nat \<Rightarrow> string option" where
  "answerAt vs opts s k = fst ((vs ! k) opts (stateBefore vs opts s k))"

text \<open>
  Modelled from the spec: the kinds of normalized error of the missing error normalizer
  (7), those that end an invocation.
\<close>

datatype errorKind = ValidationFailure | NotFound | AmbiguousMatch | RemoteRequestFailure

text \<open>
  Modelled from the spec: the outcome of an invocation of the missing executor: a
  normalized error, or success with the result payload if there is one.
\<close>

datatype 'p outcome = Failure errorKind string | Success "'p option"

text \<open>
  Modelled from the spec: the command descriptor of the missing framework (3): its option
  sets, its validators, its telemetry hooks, whether it is destructive and under which
  flag the confirmation is bypassed, and its action with the normalizer of the action's
  failures.
\<close>

record ('s, 'e, 'p) descriptor =
  optionSets :: "string list list"
  validators :: "'s validator list"
  telemetryHooks :: "(options \<Rightarrow> (string \<times> string) list) list"
  destructive :: bool
  bypassFlag :: string
  confirmMessage :: string
  action :: "options \<Rightarrow> 's \<Rightarrow> 'e + 'p"
  normalizer :: "'e \<Rightarrow> errorKind \<times> string"

text \<open>
  Modelled from the spec: what an invocation did, for the missing command executor:
  the validators that invoked, the telemetry collected, the confirmation requests issued, how
  often the action was invoked, and the outcome.
\<close>

record 'p execution =
  validatorsRun :: "nat list"
  telemetry :: "(string \<times> string) list"
  prompts :: "string list"
  actionRuns :: nat
  outcome :: "'p outcome"

text \<open>
  Modelled from the spec: the command executor of the missing framework (4.7), after
  parsing: enforce the option sets and leave on a failure; validate and leave on the
  first failure; collect the telemetry; for a destructive command without the bypass
  flag, ask, and end quietly in success on a negative answer; run the action; normalize
  its failure or emit its result. \<open>ask\<close> is the interactive yes/no request.
\<close>

definition executeCommand ::
  "('s, 'e, 'p) descriptor \<Rightarrow> (string \<Rightarrow> bool) \<Rightarrow> options \<Rightarrow> 's \<Rightarrow> 'p execution" where
  "executeCommand d ask opts s0 =
     (case enforceOptionSets opts (optionSets d) of
        failure # _ \<Rightarrow>
          \<lparr>validatorsRun = [], telemetry = [], prompts = [], actionRuns = 0,
           outcome = Failure ValidationFailure failure\<rparr>
      | [] \<Rightarrow>
          (case runValidators (validators d) 0 opts s0 of
             (invoked, Some failure, s) \<Rightarrow>
               \<lparr>validatorsRun = invoked, telemetry = [], prompts = [], actionRuns = 0,
                outcome = Failure ValidationFailure failure\<rparr>
           | (invoked, None, s) \<Rightarrow>
               if destructive d \<and> \<not> truthy (opts (bypassFlag d))
               then if ask (confirmMessage d)
                    then \<lparr>validatorsRun = invoked,
                          telemetry = concat (map (\<lambda>hook. hook opts) (telemetryHooks d)),
                          prompts = [confirmMessage d], actionRuns = 1,
                          outcome = (case action d opts s of
                                       Inl e \<Rightarrow> Failure (fst (normalizer d e)) (snd (normalizer d e))
                                     | Inr p \<Rightarrow> Success (Some p))\<rparr>
                    else \<lparr>validatorsRun = invoked,
                          telemetry = concat (map (\<lambda>hook. hook opts) (telemetryHooks d)),
                          prompts = [confirmMessage d], actionRuns = 0,
                          outcome = Success None\<rparr>
               else \<lparr>validatorsRun = invoked,
                     telemetry = concat (map (\<lambda>hook. hook opts) (telemetryHooks d)),
                     prompts = [], actionRuns = 1,
                     outcome = (case action d opts s of
                                  Inl e \<Rightarrow> Failure (fst (normalizer d e)) (snd (normalizer d e))
                                | Inr p \<Rightarrow> Success (Some p))\<rparr>))"

text \<open>
  Example inputs for the framework: the options of a \<open>teams channel get\<close> by team id
  and channel name, and with both team options; a validator that passes; the validator
  of \<open>aad app add\<close> as a pipeline validator, in a directory without files; a user
  who answers no; and two descriptors whose action returns its options' name.
\<close>

definition byTeamIdAndChannelName :: options where
  "byTeamIdAndChannelName = map_of [(''teamId'', Str ''T''), (''channelName'', Str ''General'')]"

definition withBothTeamOptions :: options where
  "withBothTeamOptions = map_of [(''teamId'', Str ''T''), (''teamName'', Str ''Team''),
     (''channelName'', Str ''General'')]"

definition noOptions :: options where
  "noOptions = map_of []"

definition passes :: "jsonval option validator" where
  "passes opts s = (None, s)"

definition certificateValidator :: "jsonval option validator" where
  "certificateValidator opts s =
     (case appAdd_validator noSuchFile notJson v8Describe opts s of
        (Inr (Fail failure), s') \<Rightarrow> (Some failure, s')
      | (Inr Pass, s') \<Rightarrow> (None, s')
      | (Inl e, s') \<Rightarrow> (Some e, s'))"

definition nameAction :: "options \<Rightarrow> jsonval option \<Rightarrow> string + string" where
  "nameAction opts s = Inr (toStr (opts ''name''))"

definition remoteFailure :: "string \<Rightarrow> errorKind \<times> string" where
  "remoteFailure e = (RemoteRequestFailure, e)"

definition declines :: "string \<Rightarrow> bool" where
  "declines question = False"

definition exampleDescriptor :: "(jsonval option, string, string) descriptor" where
  "exampleDescriptor =
     \<lparr>optionSets = [], validators = [passes, certificateValidator, passes],
      telemetryHooks = [], destructive = False, bypassFlag = ''confirm'',
      confirmMessage = ''Are you sure?'', action = nameAction, normalizer = remoteFailure\<rparr>"

definition passingDescriptor :: "(jsonval option, string, string) descriptor" where
  "passingDescriptor =
     \<lparr>optionSets = [], validators = [passes, passes],
      telemetryHooks = [], destructive = False, bypassFlag = ''confirm'',
      confirmMessage = ''Are you sure?'', action = nameAction, normalizer = remoteFailure\<rparr>"

section \<open>Substrings\<close>

lemma startsWith_prefix: "startsWith s p \<longleftrightarrow> prefix p s"
  by (induction s p rule: startsWith.induct) auto

lemma str_includes_sublist: "str_includes s p \<longleftrightarrow> sublist p s"
  by (induction s) (auto simp: startsWith_prefix sublist_Cons_right)

lemma str_includes_mid: "str_includes (a @ p @ b) p"
  by (simp add: str_includes_sublist)

lemma str_includes_append_left: "str_includes s p \<Longrightarrow> str_includes (a @ s) p"
  by (simp add: str_includes_sublist sublist_append)

lemma str_includes_join: "i \<in> set ids \<Longrightarrow> str_includes (array_join sep ids) i"
proof (induction sep ids rule: array_join.induct)
  case (1 sep)
  then show ?case by simp
next
  case (2 sep x)
  then show ?case by (simp add: str_includes_sublist)
next
  case (3 sep x y ys)
  show ?case
  proof (cases "i = x")
    case True
    then show ?thesis using str_includes_mid[of "[]" x] by simp
  next
    case False
    with 3 have "str_includes (array_join sep (y # ys)) i" by simp
    then show ?thesis
      using str_includes_append_left[of "array_join sep (y # ys)" i "x @ sep"] by simp
  qed
qed

section \<open>The channels\<close>

lemma logged_simps:
  "logged (logToStderr s l) = logged l" "logged (log r l) = logged l @ [r]"
  "logged emptyLogger = []"
  "stderr (logToStderr s l) = stderr l @ [s]" "stderr (log r l) = stderr l"
  by (simp_all add: logToStderr_def log_def emptyLogger_def)

section \<open>The save step\<close>

lemma map_of_setProperty:
  "map_of (setProperty k v kvs) k = Some v"
  "k' \<noteq> k \<Longrightarrow> map_of (setProperty k v kvs) k' = map_of kvs k'"
  by (induction kvs) auto


lemma some_appId_has_record:
  "map_of r ''appId'' = Some (JString i) \<Longrightarrow> some_appId i (pre @ JObject r # post) \<noteq> Inr False"
  by (induction i pre rule: some_appId.induct) auto

lemma some_appId_pushed:
  "some_appId i xs = Inr False \<Longrightarrow> some_appId i (xs @ [appEntry i n]) = Inr True"
  by (induction i xs rule: some_appId.induct) (auto simp add: appEntry_def split: if_splits)

lemma readM365rc_parsed:
  "contents d = Some c \<Longrightarrow> readError d = None \<Longrightarrow> c \<noteq> [] \<Longrightarrow> JSON_parse js c = Inr m
   \<Longrightarrow> readM365rc g js d l
       = Inr (m, if debug g then logToStderr (''Reading existing '' @ filePath @ ''...'') l else l)"
  by (simp add: readM365rc_def existsSync_def readFileSync_def Let_def)

lemma appGet_saveAppInfo_present:
  "readM365rc g js d (if verbose g then logToStderr savingMessage l else l) = Inr (m, l1)
   \<Longrightarrow> appsProperty m = Inr (JArray xs)
   \<Longrightarrow> some_appId (Application.appId appInfo) xs = Inr True
   \<Longrightarrow> appGet_saveAppInfo g js opts appInfo d l
       = (Inr appInfo, d, if truthy (opts ''save'') then l1 else l)"
  by (simp add: appGet_saveAppInfo_def Let_def)

lemma appGet_saveAppInfo_no_write:
  "readM365rc g js d (if verbose g then logToStderr savingMessage l else l) = Inr (m, l1)
   \<Longrightarrow> appsProperty m = Inr (JArray xs)
   \<Longrightarrow> some_appId (Application.appId appInfo) xs \<noteq> Inr False
   \<Longrightarrow> fst (snd (appGet_saveAppInfo g js opts appInfo d l)) = d"
  by (simp add: appGet_saveAppInfo_def Let_def split: sum.splits bool.splits)

lemma appGet_saveAppInfo_absent:
  "truthy (opts ''save'')
   \<Longrightarrow> readM365rc g js d (if verbose g then logToStderr savingMessage l else l) = Inr (m, l1)
   \<Longrightarrow> appsProperty m = Inr (JArray xs)
   \<Longrightarrow> some_appId (Application.appId appInfo) xs = Inr False
   \<Longrightarrow> fst (snd (appGet_saveAppInfo g js opts appInfo d l))
       = snd (writeFileSync (JSON_stringify js
           (withApps (JArray (xs @ [appEntry (Application.appId appInfo) (displayName appInfo)]))
              m)) d)"
  by (simp add: appGet_saveAppInfo_def writeM365rc_def Let_def split: prod.splits option.splits)

lemma appGet_saveAppInfo_read_failed:
  "readM365rc g js d (if verbose g then logToStderr savingMessage l else l) = Inl l1
   \<Longrightarrow> appGet_saveAppInfo g js opts appInfo d l
       = (Inr appInfo, d, if truthy (opts ''save'') then l1 else l)"
  by (simp add: appGet_saveAppInfo_def Let_def)








section \<open>Lookups with no match\<close>










section \<open>Lookups with several matches\<close>

lemma str_includes_join_all: "list_all (str_includes (a @ array_join sep ids)) ids"
  by (simp add: list_all_iff str_includes_join str_includes_append_left)







section \<open>Saving the registration: aad app get\<close>

text \<open>
  C10. Saving in \<open>aad app get\<close> is idempotent. When the file already holds a record with
  the app's appId (the file parses to an object whose \<open>apps\<close> is an array with such a
  record in it), the save step leaves the disk exactly as it was: the contents are the
  same and \<open>fs.writeFileSync\<close> was not called. And when a first
  save did write the app (the file, when read back, gives the object that was written), a
  second save of the same app leaves the disk as the first save left it.
\<close>

theorem appGet_saveAppInfo_idempotent:
  "(contents d = Some c \<and> readError d = None \<and> c \<noteq> [] \<and> JSON_parse js c = Inr (JObject kvs)
      \<and> map_of kvs ''apps'' = Some (JArray (pre @ JObject r # post))
      \<and> map_of r ''appId'' = Some (JString (Application.appId appInfo))
     \<longrightarrow> fst (snd (appGet_saveAppInfo g js opts appInfo d l)) = d)
   \<and> (truthy (opts ''save'')
      \<and> readM365rc g js d' (if verbose g then logToStderr savingMessage l else l)
          = Inr (JObject kvs', l1)
      \<and> appsProperty (JObject kvs') = Inr (JArray xs)
      \<and> some_appId (Application.appId appInfo) xs = Inr False
      \<and> writeError d' = None
      \<and> JSON_stringify js (JObject (setProperty ''apps''
             (JArray (xs @ [JObject [(''appId'', JString (Application.appId appInfo)),
                                     (''name'', JString (displayName appInfo))]])) kvs'))
           \<noteq> []
      \<and> JSON_parse js (JSON_stringify js (JObject (setProperty ''apps''
             (JArray (xs @ [JObject [(''appId'', JString (Application.appId appInfo)),
                                     (''name'', JString (displayName appInfo))]])) kvs')))
           = Inr (JObject (setProperty ''apps''
             (JArray (xs @ [JObject [(''appId'', JString (Application.appId appInfo)),
                                     (''name'', JString (displayName appInfo))]])) kvs'))
     \<longrightarrow> contents (fst (snd (appGet_saveAppInfo g js opts appInfo d' l)))
           = Some (JSON_stringify js (JObject (setProperty ''apps''
             (JArray (xs @ [JObject [(''appId'', JString (Application.appId appInfo)),
                                     (''name'', JString (displayName appInfo))]])) kvs')))
         \<and> fst (snd (appGet_saveAppInfo g js opts appInfo
               (fst (snd (appGet_saveAppInfo g js opts appInfo d' l))) l2))
           = fst (snd (appGet_saveAppInfo g js opts appInfo d' l)))"
proof (intro conjI impI)
  assume a: "contents d = Some c \<and> readError d = None \<and> c \<noteq> [] \<and> JSON_parse js c = Inr (JObject kvs)
      \<and> map_of kvs ''apps'' = Some (JArray (pre @ JObject r # post))
      \<and> map_of r ''appId'' = Some (JString (Application.appId appInfo))"
  then have rd: "readM365rc g js d (if verbose g then logToStderr savingMessage l else l)
      = Inr (JObject kvs, if debug g then logToStderr (''Reading existing '' @ filePath @ ''...'')
              (if verbose g then logToStderr savingMessage l else l)
             else (if verbose g then logToStderr savingMessage l else l))"
    using readM365rc_parsed[where d=d and c=c and js=js and m="JObject kvs" and g=g] by blast
  from a have ap: "appsProperty (JObject kvs) = Inr (JArray (pre @ JObject r # post))"
    by simp
  from a have sm: "some_appId (Application.appId appInfo) (pre @ JObject r # post) \<noteq> Inr False"
    using some_appId_has_record[of r "Application.appId appInfo" pre post] by blast
  from appGet_saveAppInfo_no_write[OF rd ap sm, where opts=opts]
  show "fst (snd (appGet_saveAppInfo g js opts appInfo d l)) = d" .
next
  let ?w = "JObject (setProperty ''apps''
             (JArray (xs @ [JObject [(''appId'', JString (Application.appId appInfo)),
                                     (''name'', JString (displayName appInfo))]])) kvs')"
  let ?d1 = "fst (snd (appGet_saveAppInfo g js opts appInfo d' l))"
  assume b: "truthy (opts ''save'')
      \<and> readM365rc g js d' (if verbose g then logToStderr savingMessage l else l)
          = Inr (JObject kvs', l1)
      \<and> appsProperty (JObject kvs') = Inr (JArray xs)
      \<and> some_appId (Application.appId appInfo) xs = Inr False
      \<and> writeError d' = None
      \<and> JSON_stringify js ?w \<noteq> []
      \<and> JSON_parse js (JSON_stringify js ?w) = Inr ?w"
  have w: "withApps (JArray (xs @ [appEntry (Application.appId appInfo) (displayName appInfo)]))
      (JObject kvs') = ?w"
    by (simp add: appEntry_def)
  from b have d1: "?d1 = snd (writeFileSync (JSON_stringify js ?w) d')"
    using appGet_saveAppInfo_absent[where opts=opts and g=g and js=js and d=d' and l=l
        and m="JObject kvs'" and ?l1.0=l1 and appInfo=appInfo and xs=xs]
    unfolding w by blast
  with b have c1: "contents ?d1 = Some (JSON_stringify js ?w)"
    by (simp add: writeFileSync_def)
  then show "contents ?d1 = Some (JSON_stringify js ?w)" .
  show "fst (snd (appGet_saveAppInfo g js opts appInfo ?d1 l2)) = ?d1"
  proof (cases "readError ?d1")
    case None
    from readM365rc_parsed[OF c1 None, where js=js and m="?w" and g=g] b
    have rd: "readM365rc g js ?d1 (if verbose g then logToStderr savingMessage l2 else l2)
        = Inr (?w, if debug g then logToStderr (''Reading existing '' @ filePath @ ''...'')
              (if verbose g then logToStderr savingMessage l2 else l2)
             else (if verbose g then logToStderr savingMessage l2 else l2))"
      by blast
    have ap: "appsProperty ?w = Inr (JArray (xs @ [appEntry (Application.appId appInfo)
        (displayName appInfo)]))"
      by (simp add: map_of_setProperty appEntry_def)
    from b have sm: "some_appId (Application.appId appInfo)
        (xs @ [appEntry (Application.appId appInfo) (displayName appInfo)]) = Inr True"
      using some_appId_pushed by blast
    from appGet_saveAppInfo_present[OF rd ap sm, where opts=opts]
    show ?thesis by simp
  next
    case (Some e)
    with c1 have "readM365rc g js ?d1 (if verbose g then logToStderr savingMessage l2 else l2)
        = Inl (logToStderr (errorReading e) (if debug g then logToStderr (''Reading existing '' @ filePath @ ''...'')
              (if verbose g then logToStderr savingMessage l2 else l2)
             else (if verbose g then logToStderr savingMessage l2 else l2)))"
      by (simp add: readM365rc_def existsSync_def readFileSync_def Let_def)
    from appGet_saveAppInfo_read_failed[OF this, where opts=opts and appInfo=appInfo]
    show ?thesis by simp
  qed
qed

theorem appGet_saveAppInfo_idempotent_witness:
  "fst (snd (appGet_saveAppInfo exampleGraph exampleJson saveOptions exampleApplication
        fileWithA (emptyLogger :: unit logger))) = fileWithA
   \<and> contents (fst (snd (appGet_saveAppInfo exampleGraph exampleJson saveOptions
        exampleApplication noFile (emptyLogger :: unit logger)))) = Some ''apps:A=My app;''
   \<and> fst (snd (appGet_saveAppInfo exampleGraph exampleJson saveOptions exampleApplication
        (fst (snd (appGet_saveAppInfo exampleGraph exampleJson saveOptions
           exampleApplication noFile (emptyLogger :: unit logger))))
        (emptyLogger :: unit logger)))
     = fst (snd (appGet_saveAppInfo exampleGraph exampleJson saveOptions
           exampleApplication noFile (emptyLogger :: unit logger)))"
proof -
  let ?a = "JObject [(''appId'', JString ''A''), (''name'', JString ''My app'')]"
  have h1: "contents fileWithA = Some ''apps:A=My app;'' \<and> readError fileWithA = None
      \<and> ''apps:A=My app;'' \<noteq> []
      \<and> JSON_parse exampleJson ''apps:A=My app;'' = Inr (JObject [(''apps'', JArray [?a])])
      \<and> map_of [(''apps'', JArray [?a])] ''apps''
          = Some (JArray ([] @ JObject [(''appId'', JString ''A''), (''name'', JString ''My app'')] # []))
      \<and> map_of [(''appId'', JString ''A''), (''name'', JString ''My app'')] ''appId''
          = Some (JString (Application.appId exampleApplication))"
    by (simp add: fileWithA_def exampleJson_def exampleParse_def appEntry_def
        exampleApplication_def)
  have h2: "truthy (saveOptions ''save'')
      \<and> readM365rc exampleGraph exampleJson noFile
           (if verbose exampleGraph then logToStderr savingMessage (emptyLogger :: unit logger)
            else emptyLogger) = Inr (JObject [], emptyLogger)
      \<and> appsProperty (JObject []) = Inr (JArray [])
      \<and> some_appId (Application.appId exampleApplication) [] = Inr False
      \<and> writeError noFile = None
      \<and> JSON_stringify exampleJson (JObject (setProperty ''apps''
             (JArray ([] @ [JObject [(''appId'', JString (Application.appId exampleApplication)),
                                     (''name'', JString (displayName exampleApplication))]])) []))
           \<noteq> []
      \<and> JSON_parse exampleJson (JSON_stringify exampleJson (JObject (setProperty ''apps''
             (JArray ([] @ [JObject [(''appId'', JString (Application.appId exampleApplication)),
                                     (''name'', JString (displayName exampleApplication))]])) [])))
           = Inr (JObject (setProperty ''apps''
             (JArray ([] @ [JObject [(''appId'', JString (Application.appId exampleApplication)),
                                     (''name'', JString (displayName exampleApplication))]])) []))"
    by (simp add: saveOptions_def readM365rc_def existsSync_def noFile_def exampleGraph_def
        emptyObject_def exampleJson_def exampleParse_def exampleApplication_def appEntry_def)
  have s: "JSON_stringify exampleJson (JObject (setProperty ''apps''
             (JArray ([] @ [JObject [(''appId'', JString (Application.appId exampleApplication)),
                                     (''name'', JString (displayName exampleApplication))]])) []))
      = ''apps:A=My app;''"
    by (simp add: exampleJson_def exampleApplication_def)
  from appGet_saveAppInfo_idempotent[where d=fileWithA and c="''apps:A=My app;''"
      and js=exampleJson and kvs="[(''apps'', JArray [?a])]" and pre="[]"
      and r="[(''appId'', JString ''A''), (''name'', JString ''My app'')]" and post="[]"
      and appInfo=exampleApplication and g=exampleGraph and opts=saveOptions
      and l="emptyLogger :: unit logger"] h1
  have r1: "fst (snd (appGet_saveAppInfo exampleGraph exampleJson saveOptions exampleApplication
        fileWithA (emptyLogger :: unit logger))) = fileWithA"
    by blast
  from appGet_saveAppInfo_idempotent[where d'=noFile and js=exampleJson and kvs'="[]"
      and xs="[]" and appInfo=exampleApplication and g=exampleGraph and opts=saveOptions
      and l="emptyLogger :: unit logger" and ?l1.0="emptyLogger :: unit logger"
      and ?l2.0="emptyLogger :: unit logger"] h2
  have r2: "contents (fst (snd (appGet_saveAppInfo exampleGraph exampleJson saveOptions
        exampleApplication noFile (emptyLogger :: unit logger))))
        = Some (JSON_stringify exampleJson (JObject (setProperty ''apps''
             (JArray ([] @ [JObject [(''appId'', JString (Application.appId exampleApplication)),
                                     (''name'', JString (displayName exampleApplication))]])) [])))
     \<and> fst (snd (appGet_saveAppInfo exampleGraph exampleJson saveOptions exampleApplication
        (fst (snd (appGet_saveAppInfo exampleGraph exampleJson saveOptions
           exampleApplication noFile (emptyLogger :: unit logger))))
        (emptyLogger :: unit logger)))
     = fst (snd (appGet_saveAppInfo exampleGraph exampleJson saveOptions
           exampleApplication noFile (emptyLogger :: unit logger)))"
    by blast
  from r1 r2 s show ?thesis by simp
qed

section \<open>Read, merge, write\<close>



section \<open>A save that fails\<close>

text \<open>
  What the two \<open>try\<close> blocks of \<open>saveAppInfo\<close> catch. When reading the file or
  parsing its text throws, the function writes the warning to the diagnostic channel,
  leaves the disk alone and resolves with the \<open>appInfo\<close> it was given; when writing
  throws, it writes the warning and resolves likewise; and \<open>commandAction\<close> then logs
  the result and resolves.
\<close>

lemma read_failure_is_warning:
  assumes "truthy (opts ''save'')" and "contents d = Some c"
    and "readError d = Some e \<or> readError d = None \<and> c \<noteq> [] \<and> JSON_parse js c = Inl e"
  shows "appGet_saveAppInfo g js opts appInfo d l
      = (Inr appInfo, d,
         l\<lparr>stderr := stderr l
            @ (if verbose g
               then [''Saving Azure AD app registration information to the .m365rc.json file...'']
               else [])
            @ (if debug g then [''Reading existing .m365rc.json...''] else [])
            @ [''Error reading .m365rc.json: '' @ e
                 @ ''. Please add app info to .m365rc.json manually.'']\<rparr>)"
    and "appAdd_saveAppInfo g js appName opts created d l'
      = (Inr created, d,
         l'\<lparr>stderr := stderr l'
            @ (if verbose g
               then [''Saving Azure AD app registration information to the .m365rc.json file...'']
               else [])
            @ (if debug g then [''Reading existing .m365rc.json...''] else [])
            @ [''Error reading .m365rc.json: '' @ e
                 @ ''. Please add app info to .m365rc.json manually.'']\<rparr>)"
  using assms
  by (auto simp add: appGet_saveAppInfo_def appAdd_saveAppInfo_def readM365rc_def existsSync_def
      readFileSync_def errorReading_def savingMessage_def filePath_def logToStderr_def Let_def)

lemma write_failure_is_warning:
  assumes "truthy (opts ''save'')"
    and "readM365rc g js d (if verbose g then logToStderr savingMessage l else l) = Inr (m, l1)"
    and "appsProperty m = Inr (JArray xs)"
    and "writeError d = Some e"
  shows "some_appId (Application.appId appInfo) xs = Inr False
      \<Longrightarrow> fst (appGet_saveAppInfo g js opts appInfo d l) = Inr appInfo
        \<and> snd (snd (appGet_saveAppInfo g js opts appInfo d l))
          = l1\<lparr>stderr := stderr l1 @ [''Error writing .m365rc.json: '' @ e
                 @ ''. Please add app info to .m365rc.json manually.'']\<rparr>"
    and "fst (appAdd_saveAppInfo g js appName opts created d l) = Inr created
        \<and> snd (snd (appAdd_saveAppInfo g js appName opts created d l))
          = l1\<lparr>stderr := stderr l1 @ [''Error writing .m365rc.json: '' @ e
                 @ ''. Please add app info to .m365rc.json manually.'']\<rparr>"
  using assms
  by (auto simp add: appGet_saveAppInfo_def appAdd_saveAppInfo_def writeM365rc_def
      writeFileSync_def errorWriting_def filePath_def logToStderr_def Let_def)

lemma saved_then_logged:
  "getAppObjectId g request_get_ids opts = Inr i \<Longrightarrow> getAppInfo g request_get i = Inr appInfo
   \<Longrightarrow> appGet_saveAppInfo g js opts appInfo d emptyLogger = (Inr res, d', l)
   \<Longrightarrow> appGet_commandAction g js request_get_ids request_get opts d
       = (Inr (), d', l\<lparr>logged := logged l @ [res]\<rparr>)"
  "appAdd_saveAppInfo g js appName opts created d emptyLogger = (Inr res', d', l')
   \<Longrightarrow> appAdd_commandAction g js appName (Inr created) opts d
       = (Inr (), d', l'\<lparr>logged := logged l' @ [appAddResult res']\<rparr>)"
  by (simp_all add: appGet_commandAction_def appAdd_commandAction_def log_def)

text \<open>
  C7 does not hold of the code when the save step fails between the two \<open>try\<close> blocks.
  A file whose text is JSON for something other than an object with an array \<open>apps\<close>
  parses, and \<open>m365rc.apps\<close>, \<open>.some\<close> or \<open>.push\<close> then throws a \<open>TypeError\<close>
  that nothing in \<open>saveAppInfo\<close> catches. With the file holding \<open>null\<close>, the primary
  action having succeeded, \<open>saveAppInfo\<close> of \<open>aad app get\<close> and of \<open>aad app add\<close>
  throws; \<open>commandAction\<close> hands the error to \<open>handleRejectedODataJsonPromise\<close> and is
  rejected, with nothing written to the result channel and no warning on the diagnostic
  channel.
\<close>

theorem save_of_null_file_is_fatal:
  "appGet_saveAppInfo exampleGraph exampleJson saveOptions exampleApplication fileWithNull
       (emptyLogger :: Application logger)
     = (Inl (ReadOfNull ''apps''), fileWithNull, emptyLogger)
   \<and> appGet_commandAction exampleGraph exampleJson noMatches found saveOptions fileWithNull
     = (Inl (handleRejectedODataJsonPromise exampleGraph (Thrown (ReadOfNull ''apps''))),
        fileWithNull, \<lparr>logged = [], stderr = []\<rparr>)
   \<and> appAdd_saveAppInfo exampleGraph exampleJson ''My app'' saveOptions exampleAppInfo
       fileWithNull (emptyLogger :: AppAddResult logger)
     = (Inl (ReadOfNull ''apps''), fileWithNull, emptyLogger)
   \<and> appAdd_commandAction exampleGraph exampleJson ''My app'' (Inr exampleAppInfo) saveOptions
       fileWithNull
     = (Inl (handleRejectedODataJsonPromise exampleGraph (Thrown (ReadOfNull ''apps''))),
        fileWithNull, \<lparr>logged = [], stderr = []\<rparr>)
   \<and> handleRejectedODataJsonPromise exampleGraph (Thrown (ReadOfNull ''apps''))
     = CommandError ''Cannot read properties of null (reading 'apps')''"
proof -
  have rd: "readM365rc exampleGraph exampleJson fileWithNull (emptyLogger :: 'r logger)
      = Inr (JNull, emptyLogger)" 
    by (simp add: readM365rc_def existsSync_def readFileSync_def fileWithNull_def
        exampleGraph_def exampleJson_def exampleParse_def Let_def)
  have s: "truthy (saveOptions ''save'')" "verbose exampleGraph = False"
    by (simp_all add: saveOptions_def exampleGraph_def)
  have g: "appGet_saveAppInfo exampleGraph exampleJson saveOptions a fileWithNull
       (emptyLogger :: 'r logger) = (Inl (ReadOfNull ''apps''), fileWithNull, emptyLogger)" for a
    by (simp add: appGet_saveAppInfo_def s rd)
  have ad: "appAdd_saveAppInfo exampleGraph exampleJson n saveOptions a fileWithNull
       (emptyLogger :: 'r logger) = (Inl (ReadOfNull ''apps''), fileWithNull, emptyLogger)" for a n
    by (simp add: appAdd_saveAppInfo_def s rd)
  have o: "getAppObjectId exampleGraph noMatches saveOptions = Inr ''O''"
    by (simp add: getAppObjectId_def saveOptions_def)
  have c1: "appGet_commandAction exampleGraph exampleJson noMatches found saveOptions fileWithNull
     = (Inl (handleRejectedODataJsonPromise exampleGraph (Thrown (ReadOfNull ''apps''))),
        fileWithNull, emptyLogger)"
    by (simp add: appGet_commandAction_def o getAppInfo_def found_def g)
  have c2: "appAdd_commandAction exampleGraph exampleJson ''My app'' (Inr exampleAppInfo)
       saveOptions fileWithNull
     = (Inl (handleRejectedODataJsonPromise exampleGraph (Thrown (ReadOfNull ''apps''))),
        fileWithNull, emptyLogger)"
    by (simp add: appAdd_commandAction_def ad)
  have m: "handleRejectedODataJsonPromise exampleGraph (Thrown (ReadOfNull ''apps''))
     = CommandError ''Cannot read properties of null (reading 'apps')''"
    by (simp add: handleRejectedODataJsonPromise_def exampleGraph_def)
  from g ad c1[unfolded emptyLogger_def] c2[unfolded emptyLogger_def] m show ?thesis
    by blast
qed

section \<open>The confirmation gate of teams team remove\<close>

lemma withTeamId_confirm: "withTeamId opts ''confirm'' = opts ''confirm''"
  by (simp add: withTeamId_def)

lemma getTeamId_calls:
  "filter isPrompt (snd (getTeamId gg opts)) = []"
  "filter isDelete (snd (getTeamId gg opts)) = []"
  "count_list (snd (getTeamId gg opts)) RemoveTeam = 0"
  by (simp_all add: getTeamId_def)

lemma removeTeam_calls:
  "filter isPrompt (snd (removeTeam g gg del opts)) = []"
  "count_list (snd (removeTeam g gg del opts)) RemoveTeam = 1"
  "length (filter isDelete (snd (removeTeam g gg del opts))) \<le> 1"
  using getTeamId_calls[of gg opts]
  by (auto simp add: removeTeam_def split: prod.splits sum.splits)

lemma removeTeam_deletes:
  "fst (getTeamId gg opts) = Inr teamId
   \<Longrightarrow> filter isDelete (snd (removeTeam g gg del opts))
       = [Delete (resource g @ ''/v1.0/groups/'' @ encodeURIComponent g teamId)]"
  using getTeamId_calls[of gg opts]
  by (auto simp add: removeTeam_def split: prod.splits sum.splits)

lemma teamRemove_confirmed:
  "truthy (opts ''confirm'')
   \<Longrightarrow> (fst (teamRemove_commandAction g prompt gg del opts),
        snd (snd (teamRemove_commandAction g prompt gg del opts)))
       = removeTeam g gg del (withTeamId opts)"
  by (simp add: teamRemove_commandAction_def withTeamId_confirm Let_def case_prod_unfold)

lemma teamRemove_declined:
  "\<not> truthy (opts ''confirm'') \<Longrightarrow> \<not> prompt (removePrompt (withTeamId opts))
   \<Longrightarrow> fst (teamRemove_commandAction g prompt gg del opts) = Inr ()
     \<and> logged (fst (snd (teamRemove_commandAction g prompt gg del opts))) = []
     \<and> snd (snd (teamRemove_commandAction g prompt gg del opts))
       = [PromptCall (removePrompt (withTeamId opts))]"
  by (simp add: teamRemove_commandAction_def withTeamId_confirm Let_def logged_simps)

lemma teamRemove_prompts:
  "\<not> truthy (opts ''confirm'')
   \<Longrightarrow> filter isPrompt (snd (snd (teamRemove_commandAction g prompt gg del opts)))
       = [PromptCall (removePrompt (withTeamId opts))]
     \<and> hd (snd (snd (teamRemove_commandAction g prompt gg del opts)))
       = PromptCall (removePrompt (withTeamId opts))"
  using removeTeam_calls(1)[of g gg del "withTeamId opts"]
  by (simp add: teamRemove_commandAction_def withTeamId_confirm Let_def case_prod_unfold)

text \<open>
  C3. Without a truthy \<open>confirm\<close> option the command issues exactly one prompt, the first
  thing it does, of type \<open>confirm\<close> and with the default answer \<open>false\<close>. When the
  answer is negative, \<open>removeTeam\<close> is not entered, no group is looked up and no DELETE
  request is sent; the invocation ends in success, with nothing on the result channel
  and no error. With \<open>confirm\<close> set, no prompt is issued and \<open>removeTeam\<close> is entered
  exactly once: the invocation's outcome and calls are those of one run of
  \<open>removeTeam\<close>, which sends the DELETE request exactly once when the team's id
  resolves, and never more than once.
\<close>

theorem confirmation_gate:
  "(\<not> truthy (opts ''confirm'')
      \<longrightarrow> filter isPrompt (snd (snd (teamRemove_commandAction g prompt gg del opts)))
            = [PromptCall (removePrompt (withTeamId opts))]
          \<and> hd (snd (snd (teamRemove_commandAction g prompt gg del opts)))
            = PromptCall (removePrompt (withTeamId opts))
          \<and> type (removePrompt (withTeamId opts)) = ''confirm''
          \<and> default' (removePrompt (withTeamId opts)) = False)
   \<and> (\<not> truthy (opts ''confirm'') \<and> \<not> prompt (removePrompt (withTeamId opts))
      \<longrightarrow> fst (teamRemove_commandAction g prompt gg del opts) = Inr ()
          \<and> logged (fst (snd (teamRemove_commandAction g prompt gg del opts))) = []
          \<and> snd (snd (teamRemove_commandAction g prompt gg del opts))
            = [PromptCall (removePrompt (withTeamId opts))]
          \<and> count_list (snd (snd (teamRemove_commandAction g prompt gg del opts))) RemoveTeam
            = 0
          \<and> filter isLookup (snd (snd (teamRemove_commandAction g prompt gg del opts))) = []
          \<and> filter isDelete (snd (snd (teamRemove_commandAction g prompt gg del opts))) = [])
   \<and> (truthy (opts ''confirm'')
      \<longrightarrow> filter isPrompt (snd (snd (teamRemove_commandAction g prompt gg del opts))) = []
          \<and> count_list (snd (snd (teamRemove_commandAction g prompt gg del opts))) RemoveTeam
            = 1
          \<and> (fst (teamRemove_commandAction g prompt gg del opts),
              snd (snd (teamRemove_commandAction g prompt gg del opts)))
            = removeTeam g gg del (withTeamId opts)
          \<and> length (filter isDelete
                (snd (snd (teamRemove_commandAction g prompt gg del opts)))) \<le> 1)
   \<and> (truthy (opts ''confirm'') \<and> fst (getTeamId gg (withTeamId opts)) = Inr teamId
      \<longrightarrow> filter isDelete (snd (snd (teamRemove_commandAction g prompt gg del opts)))
            = [Delete (resource g @ ''/v1.0/groups/'' @ encodeURIComponent g teamId)])"
proof (intro conjI impI)
  assume n: "\<not> truthy (opts ''confirm'')"
  from teamRemove_prompts[where opts=opts and g=g and prompt=prompt and gg=gg and del=del,
      OF n]
  show "filter isPrompt (snd (snd (teamRemove_commandAction g prompt gg del opts)))
            = [PromptCall (removePrompt (withTeamId opts))]"
    and "hd (snd (snd (teamRemove_commandAction g prompt gg del opts)))
            = PromptCall (removePrompt (withTeamId opts))"
    by blast+
  show "type (removePrompt (withTeamId opts)) = ''confirm''"
    and "default' (removePrompt (withTeamId opts)) = False"
    by (simp_all add: removePrompt_def)
next
  assume "\<not> truthy (opts ''confirm'') \<and> \<not> prompt (removePrompt (withTeamId opts))"
  then have d: "fst (teamRemove_commandAction g prompt gg del opts) = Inr ()
     \<and> logged (fst (snd (teamRemove_commandAction g prompt gg del opts))) = []
     \<and> snd (snd (teamRemove_commandAction g prompt gg del opts))
       = [PromptCall (removePrompt (withTeamId opts))]"
    using teamRemove_declined[of opts prompt g gg del] by blast
  from d show "fst (teamRemove_commandAction g prompt gg del opts) = Inr ()" by blast
  from d show "logged (fst (snd (teamRemove_commandAction g prompt gg del opts))) = []"
    by blast
  from d show "snd (snd (teamRemove_commandAction g prompt gg del opts))
       = [PromptCall (removePrompt (withTeamId opts))]" by blast
  from d show "count_list (snd (snd (teamRemove_commandAction g prompt gg del opts)))
      RemoveTeam = 0" by simp
  from d show "filter isLookup (snd (snd (teamRemove_commandAction g prompt gg del opts))) = []"
    by simp
  from d show "filter isDelete (snd (snd (teamRemove_commandAction g prompt gg del opts))) = []"
    by simp
next
  assume c: "truthy (opts ''confirm'')"
  note e = teamRemove_confirmed[where opts=opts and g=g and prompt=prompt and gg=gg
      and del=del, OF c]
  then have s: "snd (snd (teamRemove_commandAction g prompt gg del opts))
      = snd (removeTeam g gg del (withTeamId opts))"
    by (metis snd_conv)
  show "filter isPrompt (snd (snd (teamRemove_commandAction g prompt gg del opts))) = []"
    and "count_list (snd (snd (teamRemove_commandAction g prompt gg del opts))) RemoveTeam = 1"
    and "length (filter isDelete
                (snd (snd (teamRemove_commandAction g prompt gg del opts)))) \<le> 1"
    unfolding s by (rule removeTeam_calls)+
  show "(fst (teamRemove_commandAction g prompt gg del opts),
              snd (snd (teamRemove_commandAction g prompt gg del opts)))
            = removeTeam g gg del (withTeamId opts)"
    by (rule e)
next
  assume c: "truthy (opts ''confirm'') \<and> fst (getTeamId gg (withTeamId opts)) = Inr teamId"
  then have s: "snd (snd (teamRemove_commandAction g prompt gg del opts))
      = snd (removeTeam g gg del (withTeamId opts))"
    using teamRemove_confirmed[of opts g prompt gg del] by (metis snd_conv)
  from c show "filter isDelete (snd (snd (teamRemove_commandAction g prompt gg del opts)))
            = [Delete (resource g @ ''/v1.0/groups/'' @ encodeURIComponent g teamId)]"
    unfolding s using removeTeam_deletes[of gg "withTeamId opts" teamId g del] by blast
qed


theorem confirmation_gate_witness:
  "snd (snd (teamRemove_commandAction exampleGraph decline anyTeam deleted removeById))
     = [PromptCall (removePrompt (withTeamId removeById))]
   \<and> default' (removePrompt (withTeamId removeById)) = False
   \<and> fst (teamRemove_commandAction exampleGraph decline anyTeam deleted removeById) = Inr ()
   \<and> filter isDelete
        (snd (snd (teamRemove_commandAction exampleGraph decline anyTeam deleted removeById)))
     = []
   \<and> filter isPrompt (snd (snd (teamRemove_commandAction exampleGraph decline anyTeam deleted
        removeByIdConfirmed))) = []
   \<and> count_list (snd (snd (teamRemove_commandAction exampleGraph decline anyTeam deleted
        removeByIdConfirmed))) RemoveTeam = 1
   \<and> filter isDelete (snd (snd (teamRemove_commandAction exampleGraph decline anyTeam deleted
        removeByIdConfirmed)))
     = [Delete (resource exampleGraph @ ''/v1.0/groups/''
          @ encodeURIComponent exampleGraph ''00000000-0000-0000-0000-000000000000'')]"
proof -
  have h1: "\<not> truthy (removeById ''confirm'')"
    by (simp add: removeById_def)
  have h2: "\<not> truthy (removeById ''confirm'')
      \<and> \<not> decline (removePrompt (withTeamId removeById))"
    by (simp add: removeById_def decline_def)
  have h3: "truthy (removeByIdConfirmed ''confirm'')"
    by (simp add: removeByIdConfirmed_def)
  have h4: "truthy (removeByIdConfirmed ''confirm'')
      \<and> fst (getTeamId anyTeam (withTeamId removeByIdConfirmed))
        = Inr ''00000000-0000-0000-0000-000000000000''"
    by (simp add: removeByIdConfirmed_def getTeamId_def withTeamId_def)
  note t1 = confirmation_gate[where opts=removeById and g=exampleGraph and prompt=decline
      and gg=anyTeam and del=deleted]
  note t2 = confirmation_gate[where opts=removeByIdConfirmed and g=exampleGraph
      and prompt=decline and gg=anyTeam and del=deleted
      and teamId="''00000000-0000-0000-0000-000000000000''"]
  from t1 h1 h2 have c1:
    "snd (snd (teamRemove_commandAction exampleGraph decline anyTeam deleted removeById))
       = [PromptCall (removePrompt (withTeamId removeById))]
     \<and> default' (removePrompt (withTeamId removeById)) = False
     \<and> fst (teamRemove_commandAction exampleGraph decline anyTeam deleted removeById) = Inr ()
     \<and> filter isDelete
        (snd (snd (teamRemove_commandAction exampleGraph decline anyTeam deleted removeById)))
       = []"
    by blast
  from t2 h3 h4 have c2:
    "filter isPrompt (snd (snd (teamRemove_commandAction exampleGraph decline anyTeam deleted
        removeByIdConfirmed))) = []
     \<and> count_list (snd (snd (teamRemove_commandAction exampleGraph decline anyTeam deleted
        removeByIdConfirmed))) RemoveTeam = 1
     \<and> filter isDelete (snd (snd (teamRemove_commandAction exampleGraph decline anyTeam deleted
        removeByIdConfirmed)))
       = [Delete (resource exampleGraph @ ''/v1.0/groups/''
          @ encodeURIComponent exampleGraph ''00000000-0000-0000-0000-000000000000'')]"
    by blast
  from c1 c2 show ?thesis by simp
qed

section \<open>The validator of aad app add never throws\<close>

lemma appAdd_validator_returns:
  "\<exists>v. fst (appAdd_validator ex parse describe opts manifest) = Inr v"
  by (simp add: appAdd_validator_def split: verdict.splits prod.splits sum.splits option.splits)

lemma appAdd_validator_certificate:
  "optionChecks opts = Pass \<Longrightarrow> truthy (opts ''certificateFile'')
   \<Longrightarrow> \<not> ex (toStr (opts ''certificateFile''))
   \<Longrightarrow> fst (appAdd_validator ex parse describe opts manifest) = Inr (Fail ''Certificate file not found'')"
  by (simp add: appAdd_validator_def)

lemma appAdd_validator_manifest:
  "optionChecks opts = Pass
   \<Longrightarrow> \<not> (truthy (opts ''certificateFile'') \<and> \<not> ex (toStr (opts ''certificateFile'')))
   \<Longrightarrow> scopeChecks opts = Pass \<Longrightarrow> truthy (opts ''manifest'')
   \<Longrightarrow> fst (manifestTry parse describe opts manifest) = Inl e
   \<Longrightarrow> fst (appAdd_validator ex parse describe opts manifest)
       = Inr (Fail (''Error while parsing the specified manifest: '' @ e))"
  by (auto simp add: appAdd_validator_def split: prod.splits)

lemma manifestTry_throws:
  "parse (toStr (opts ''manifest'')) = Inl e \<Longrightarrow> fst (manifestTry parse describe opts manifest) = Inl e"
  "parse (toStr (opts ''manifest'')) = Inr JNull \<Longrightarrow> \<not> truthy (opts ''name'')
   \<Longrightarrow> fst (manifestTry parse describe opts manifest)
       = Inl (describe (ReadOfNull ''name''))"
  by (simp_all add: manifestTry_def)

text \<open>
  C8. The validator of \<open>aad app add\<close> returns, whatever the options, the file system
  and \<open>JSON.parse\<close> do: no exception escapes it. A certificate file that does not exist
  or cannot be reached gives the message \<open>Certificate file not found\<close>; a manifest that
  \<open>JSON.parse\<close> rejects, or whose parsed value is \<open>null\<close> so that reading its
  \<open>name\<close> throws, gives the message \<open>Error while parsing the specified manifest: ...\<close>
  with the exception in it, as the engine words it.
\<close>

theorem validator_never_raises:
  "(\<exists>v. fst (appAdd_validator ex parse describe opts manifest) = Inr v)
   \<and> (optionChecks opts = Pass \<and> truthy (opts ''certificateFile'')
        \<and> \<not> ex (toStr (opts ''certificateFile''))
      \<longrightarrow> fst (appAdd_validator ex parse describe opts manifest)
            = Inr (Fail ''Certificate file not found''))
   \<and> (optionChecks opts = Pass
        \<and> \<not> (truthy (opts ''certificateFile'') \<and> \<not> ex (toStr (opts ''certificateFile'')))
        \<and> scopeChecks opts = Pass \<and> truthy (opts ''manifest'')
        \<and> parse (toStr (opts ''manifest'')) = Inl e
      \<longrightarrow> fst (appAdd_validator ex parse describe opts manifest)
            = Inr (Fail (''Error while parsing the specified manifest: '' @ e)))
   \<and> (optionChecks opts = Pass
        \<and> \<not> (truthy (opts ''certificateFile'') \<and> \<not> ex (toStr (opts ''certificateFile'')))
        \<and> scopeChecks opts = Pass \<and> truthy (opts ''manifest'')
        \<and> parse (toStr (opts ''manifest'')) = Inr JNull \<and> \<not> truthy (opts ''name'')
      \<longrightarrow> fst (appAdd_validator ex parse describe opts manifest)
            = Inr (Fail (''Error while parsing the specified manifest: ''
                @ describe (ReadOfNull ''name''))))"
proof (intro conjI impI)
  show "\<exists>v. fst (appAdd_validator ex parse describe opts manifest) = Inr v"
    by (rule appAdd_validator_returns)
next
  assume "optionChecks opts = Pass \<and> truthy (opts ''certificateFile'')
        \<and> \<not> ex (toStr (opts ''certificateFile''))"
  then show "fst (appAdd_validator ex parse describe opts manifest)
            = Inr (Fail ''Certificate file not found'')"
    using appAdd_validator_certificate[where opts=opts and ex=ex] by blast
next
  assume a: "optionChecks opts = Pass
        \<and> \<not> (truthy (opts ''certificateFile'') \<and> \<not> ex (toStr (opts ''certificateFile'')))
        \<and> scopeChecks opts = Pass \<and> truthy (opts ''manifest'')
        \<and> parse (toStr (opts ''manifest'')) = Inl e"
  then have "fst (manifestTry parse describe opts manifest) = Inl e"
    by (simp add: manifestTry_throws(1))
  with a show "fst (appAdd_validator ex parse describe opts manifest)
            = Inr (Fail (''Error while parsing the specified manifest: '' @ e))"
    using appAdd_validator_manifest[where opts=opts and ex=ex and parse=parse
        and manifest=manifest and describe=describe and e=e] by blast
next
  assume a: "optionChecks opts = Pass
        \<and> \<not> (truthy (opts ''certificateFile'') \<and> \<not> ex (toStr (opts ''certificateFile'')))
        \<and> scopeChecks opts = Pass \<and> truthy (opts ''manifest'')
        \<and> parse (toStr (opts ''manifest'')) = Inr JNull \<and> \<not> truthy (opts ''name'')"
  then have "fst (manifestTry parse describe opts manifest)
      = Inl (describe (ReadOfNull ''name''))"
    by (simp add: manifestTry_throws(2))
  with a show "fst (appAdd_validator ex parse describe opts manifest)
            = Inr (Fail (''Error while parsing the specified manifest: ''
                @ describe (ReadOfNull ''name'')))"
    using appAdd_validator_manifest[where opts=opts and ex=ex and parse=parse
        and manifest=manifest and describe=describe
        and e="describe (ReadOfNull ''name'')"] by blast
qed

theorem validator_never_raises_witness:
  "fst (appAdd_validator noSuchFile notJson v8Describe withCertificate None)
     = Inr (Fail ''Certificate file not found'')
   \<and> fst (appAdd_validator noSuchFile notJson v8Describe withManifest None)
     = Inr (Fail (''Error while parsing the specified manifest: ''
         @ ''SyntaxError: Unexpected token in JSON at position 0''))
   \<and> fst (appAdd_validator noSuchFile parsesNull v8Describe withManifest None)
     = Inr (Fail (''Error while parsing the specified manifest: ''
         @ ''TypeError: Cannot read properties of null (reading 'name')''))"
proof -
  have h1: "optionChecks withCertificate = Pass \<and> truthy (withCertificate ''certificateFile'')
      \<and> \<not> noSuchFile (toStr (withCertificate ''certificateFile''))"
    by (simp add: optionChecks_def withCertificate_def noSuchFile_def)
  have h2: "optionChecks withManifest = Pass
      \<and> \<not> (truthy (withManifest ''certificateFile'')
           \<and> \<not> noSuchFile (toStr (withManifest ''certificateFile'')))
      \<and> scopeChecks withManifest = Pass \<and> truthy (withManifest ''manifest'')
      \<and> notJson (toStr (withManifest ''manifest''))
        = Inl ''SyntaxError: Unexpected token in JSON at position 0''"
    by (simp add: optionChecks_def scopeChecks_def withManifest_def notJson_def)
  have h3: "optionChecks withManifest = Pass
      \<and> \<not> (truthy (withManifest ''certificateFile'')
           \<and> \<not> noSuchFile (toStr (withManifest ''certificateFile'')))
      \<and> scopeChecks withManifest = Pass \<and> truthy (withManifest ''manifest'')
      \<and> parsesNull (toStr (withManifest ''manifest'')) = Inr JNull
      \<and> \<not> truthy (withManifest ''name'')"
    by (simp add: optionChecks_def scopeChecks_def withManifest_def parsesNull_def)
  have d: "v8Describe (ReadOfNull ''name'')
      = ''TypeError: Cannot read properties of null (reading 'name')''"
    by (simp add: v8Describe_def)
  from validator_never_raises[of noSuchFile notJson v8Describe withCertificate None] h1
  have c1: "fst (appAdd_validator noSuchFile notJson v8Describe withCertificate None)
     = Inr (Fail ''Certificate file not found'')"
    by blast
  from validator_never_raises[of noSuchFile notJson v8Describe withManifest None
      "''SyntaxError: Unexpected token in JSON at position 0''"] h2
  have c2: "fst (appAdd_validator noSuchFile notJson v8Describe withManifest None)
     = Inr (Fail (''Error while parsing the specified manifest: ''
         @ ''SyntaxError: Unexpected token in JSON at position 0''))"
    by blast
  from validator_never_raises[of noSuchFile parsesNull v8Describe withManifest None] h3
  have c3: "fst (appAdd_validator noSuchFile parsesNull v8Describe withManifest None)
     = Inr (Fail (''Error while parsing the specified manifest: ''
         @ v8Describe (ReadOfNull ''name'')))"
    by blast
  from c1 c2 c3 show ?thesis
    unfolding d by blast
qed

section \<open>The fan-out of admin consent\<close>

lemma firstRejection_None:
  "firstRejection ps = None \<longleftrightarrow> list_all (\<lambda>p. \<not> isl (snd p)) ps"
  by (induction ps rule: firstRejection.induct) (auto split: option.splits)

lemma firstRejection_Some:
  "firstRejection ps = Some (t, err)
   \<Longrightarrow> (t, Inl err) \<in> set ps \<and> list_all (\<lambda>p. isl (snd p) \<longrightarrow> t \<le> fst p) ps"
proof (induction ps arbitrary: t err rule: firstRejection.induct)
  case 1
  then show ?case by simp
next
  case (2 t' v ps)
  then show ?case by auto
next
  case (3 t' err' ps)
  show ?case
  proof (cases "firstRejection ps")
    case None
    with 3 show ?thesis
      by (auto simp add: firstRejection_None list_all_iff)
  next
    case (Some a)
    obtain t2 e2 where a: "a = (t2, e2)" by (cases a)
    from 3(1)[OF Some[unfolded a]]
    have ih: "(t2, Inl e2) \<in> set ps \<and> list_all (\<lambda>p. isl (snd p) \<longrightarrow> t2 \<le> fst p) ps" .
    from 3(2) Some a ih show ?thesis
      by (auto simp add: list_all_iff split: if_splits)
  qed
qed

lemma fold_max_Max: "fold max ts (t::nat) = Max (insert t (set ts))"
  using Max.set_eq_fold[of t ts] by simp

lemma grantAdminConsent_requests:
  "truthy adminConsent \<Longrightarrow> appPermissions \<noteq> []
   \<Longrightarrow> request_post (createServicePrincipal g (AppInfo.appId appInfo)) = (t0, Inr spId)
   \<Longrightarrow> requests (grantAdminConsent g request_post appPermissions appInfo adminConsent now l)
       = (now, createServicePrincipal g (AppInfo.appId appInfo))
         # map (Pair (now + t0)) (consentTasks g spId appPermissions)"
  by (simp add: grantAdminConsent_def posted_def)

lemma grantAdminConsent_granted:
  "truthy adminConsent \<Longrightarrow> appPermissions \<noteq> []
   \<Longrightarrow> request_post (createServicePrincipal g (AppInfo.appId appInfo)) = (t0, Inr spId)
   \<Longrightarrow> granted (grantAdminConsent g request_post appPermissions appInfo adminConsent now l)
       = (case firstRejection (tasks g request_post spId appPermissions (now + t0)) of
            Some (t', err) \<Rightarrow> (t', Inl err)
          | None \<Rightarrow> (Max (insert (now + t0)
                       (set (map fst (tasks g request_post spId appPermissions (now + t0))))),
                     Inr appInfo))"
  by (simp add: grantAdminConsent_def posted_def promiseAll_def fold_max_Max
      split: option.splits prod.splits)

lemma example_tasks:
  "consentTasks exampleGraph ''SP'' threePermissions
     = [grantOAuth2Permission exampleGraph ''SP'' ''R'' ''User.Read'',
        addRoleToServicePrincipal exampleGraph ''SP'' ''R'' ''r1'',
        addRoleToServicePrincipal exampleGraph ''SP'' ''R'' ''r2'']"
  by (simp add: consentTasks_def permissionTasks_def threePermissions_def)

text \<open>
  C9, as the specification states it, fails: the action does not wait until every
  sub-operation has completed or failed. With three tasks posted at time 1, of which the
  second is refused at time 2 and the two others are granted at time 6, the promise of
  \<open>grantAdminConsent\<close> is rejected at time 2, while the two others are still in flight.
\<close>

theorem wait_for_all_counterexample:
  "granted (grantAdminConsent exampleGraph refusesR1 threePermissions exampleAppInfo
      consentOption 0 (emptyLogger :: unit logger)) = (2, Inl (Upstream ''Forbidden''))
   \<and> tasks exampleGraph refusesR1 ''SP'' threePermissions 1
     = [(6, Inr []), (2, Inl (Upstream ''Forbidden'')), (6, Inr [])]
   \<and> requests (grantAdminConsent exampleGraph refusesR1 threePermissions exampleAppInfo
      consentOption 0 (emptyLogger :: unit logger))
     = [(0, createServicePrincipal exampleGraph ''A''),
        (1, grantOAuth2Permission exampleGraph ''SP'' ''R'' ''User.Read''),
        (1, addRoleToServicePrincipal exampleGraph ''SP'' ''R'' ''r1''),
        (1, addRoleToServicePrincipal exampleGraph ''SP'' ''R'' ''r2'')]"
proof -
  have sp: "refusesR1 (createServicePrincipal exampleGraph ''A'') = (1, Inr ''SP'')"
    by (simp add: refusesR1_def createServicePrincipal_def)
  have t: "tasks exampleGraph refusesR1 ''SP'' threePermissions 1
     = [(6, Inr []), (2, Inl (Upstream ''Forbidden'')), (6, Inr [])]"
    by (simp add: tasks_def example_tasks posted_def refusesR1_def grantOAuth2Permission_def
        addRoleToServicePrincipal_def)
  have c: "truthy consentOption" "threePermissions \<noteq> []" "AppInfo.appId exampleAppInfo = ''A''"
    by (simp_all add: consentOption_def threePermissions_def exampleAppInfo_def)
  from t have t': "tasks exampleGraph refusesR1 ''SP'' threePermissions (Suc 0)
     = [(6, Inr []), (2, Inl (Upstream ''Forbidden'')), (6, Inr [])]"
    by simp
  have g: "granted (grantAdminConsent exampleGraph refusesR1 threePermissions exampleAppInfo
      consentOption 0 (emptyLogger :: unit logger)) = (2, Inl (Upstream ''Forbidden''))"
    by (simp add: grantAdminConsent_def c posted_def sp promiseAll_def t')
  have r: "requests (grantAdminConsent exampleGraph refusesR1 threePermissions exampleAppInfo
      consentOption 0 (emptyLogger :: unit logger))
     = [(0, createServicePrincipal exampleGraph ''A''),
        (1, grantOAuth2Permission exampleGraph ''SP'' ''R'' ''User.Read''),
        (1, addRoleToServicePrincipal exampleGraph ''SP'' ''R'' ''r1''),
        (1, addRoleToServicePrincipal exampleGraph ''SP'' ''R'' ''r2'')]"
    by (simp add: grantAdminConsent_def c posted_def sp example_tasks)
  from g t r show ?thesis by blast
qed

text \<open>
  C9, amended. Once the service principal is created, \<open>grantAdminConsent\<close> posts
  every grant at that moment, in the order pushed, without waiting for one another;
  which requests are posted does not depend on how any of them is answered, and there is
  no request beside the creation of the service principal and the grants (nothing
  cancels or rolls back). When every grant succeeds, the action is fulfilled with the
  \<open>appInfo\<close> at the time the last of them is. When one fails, the action is rejected
  with the rejection of a grant that failed, at the time of that failure, which no
  other failure precedes: it does not wait for the grants still in flight.
\<close>

theorem consent_fan_out:
  assumes consent: "truthy adminConsent" and some: "appPermissions \<noteq> []"
    and sp: "request_post (createServicePrincipal g (AppInfo.appId appInfo)) = (t0, Inr spId)"
  shows "requests (grantAdminConsent g request_post appPermissions appInfo adminConsent now l)
       = (now, createServicePrincipal g (AppInfo.appId appInfo))
         # map (Pair (now + t0)) (consentTasks g spId appPermissions)
     \<and> (request_post' (createServicePrincipal g (AppInfo.appId appInfo)) = (t0, Inr spId)
        \<longrightarrow> requests (grantAdminConsent g request_post' appPermissions appInfo adminConsent
                now l)
            = requests (grantAdminConsent g request_post appPermissions appInfo adminConsent
                now l))
     \<and> (list_all (\<lambda>p. \<not> isl (snd p)) (tasks g request_post spId appPermissions (now + t0))
        \<longrightarrow> granted (grantAdminConsent g request_post appPermissions appInfo adminConsent
                now l)
            = (Max (insert (now + t0)
                 (set (map fst (tasks g request_post spId appPermissions (now + t0))))),
               Inr appInfo))
     \<and> (list_ex (\<lambda>p. isl (snd p)) (tasks g request_post spId appPermissions (now + t0))
        \<longrightarrow> (\<exists>t err.
              granted (grantAdminConsent g request_post appPermissions appInfo adminConsent
                now l) = (t, Inl err)
              \<and> (t, Inl err) \<in> set (tasks g request_post spId appPermissions (now + t0))
              \<and> list_all (\<lambda>p. isl (snd p) \<longrightarrow> t \<le> fst p)
                  (tasks g request_post spId appPermissions (now + t0))))"
proof (intro conjI impI)
  show "requests (grantAdminConsent g request_post appPermissions appInfo adminConsent now l)
       = (now, createServicePrincipal g (AppInfo.appId appInfo))
         # map (Pair (now + t0)) (consentTasks g spId appPermissions)"
    using grantAdminConsent_requests[where request_post=request_post and g=g
      and appInfo=appInfo, OF consent some sp, where now=now and l=l] .
next
  assume "request_post' (createServicePrincipal g (AppInfo.appId appInfo)) = (t0, Inr spId)"
  from grantAdminConsent_requests[where request_post=request_post' and g=g
      and appInfo=appInfo, OF consent some this, where now=now and l=l]
    grantAdminConsent_requests[where request_post=request_post and g=g
      and appInfo=appInfo, OF consent some sp, where now=now and l=l]
  show "requests (grantAdminConsent g request_post' appPermissions appInfo adminConsent now l)
      = requests (grantAdminConsent g request_post appPermissions appInfo adminConsent now l)"
    by simp
next
  assume "list_all (\<lambda>p. \<not> isl (snd p)) (tasks g request_post spId appPermissions (now + t0))"
  then have "firstRejection (tasks g request_post spId appPermissions (now + t0)) = None"
    by (simp add: firstRejection_None)
  with grantAdminConsent_granted[where request_post=request_post and g=g
      and appInfo=appInfo, OF consent some sp, where now=now and l=l]
  show "granted (grantAdminConsent g request_post appPermissions appInfo adminConsent now l)
      = (Max (insert (now + t0)
           (set (map fst (tasks g request_post spId appPermissions (now + t0))))),
         Inr appInfo)"
    by simp
next
  assume "list_ex (\<lambda>p. isl (snd p)) (tasks g request_post spId appPermissions (now + t0))"
  then have "firstRejection (tasks g request_post spId appPermissions (now + t0)) \<noteq> None"
    by (simp add: firstRejection_None list_all_iff list_ex_iff)
  then obtain t err where
    f: "firstRejection (tasks g request_post spId appPermissions (now + t0)) = Some (t, err)"
    by auto
  from grantAdminConsent_granted[where request_post=request_post and g=g
      and appInfo=appInfo, OF consent some sp, where now=now and l=l] f
  have "granted (grantAdminConsent g request_post appPermissions appInfo adminConsent now l)
      = (t, Inl err)"
    by simp
  with firstRejection_Some[OF f]
  show "\<exists>t err.
      granted (grantAdminConsent g request_post appPermissions appInfo adminConsent now l)
        = (t, Inl err)
      \<and> (t, Inl err) \<in> set (tasks g request_post spId appPermissions (now + t0))
      \<and> list_all (\<lambda>p. isl (snd p) \<longrightarrow> t \<le> fst p)
          (tasks g request_post spId appPermissions (now + t0))"
    by blast
qed

theorem consent_fan_out_witness:
  "requests (grantAdminConsent exampleGraph grantsAll threePermissions exampleAppInfo
      consentOption 0 (emptyLogger :: unit logger))
     = requests (grantAdminConsent exampleGraph refusesR1 threePermissions exampleAppInfo
      consentOption 0 (emptyLogger :: unit logger))
   \<and> granted (grantAdminConsent exampleGraph grantsAll threePermissions exampleAppInfo
      consentOption 0 (emptyLogger :: unit logger)) = (6, Inr exampleAppInfo)
   \<and> granted (grantAdminConsent exampleGraph refusesR1 threePermissions exampleAppInfo
      consentOption 0 (emptyLogger :: unit logger)) = (2, Inl (Upstream ''Forbidden''))"
proof -
  have c: "truthy consentOption" "threePermissions \<noteq> []"
    by (simp_all add: consentOption_def threePermissions_def)
  have spR: "refusesR1 (createServicePrincipal exampleGraph (AppInfo.appId exampleAppInfo))
      = (1, Inr ''SP'')"
    by (simp add: refusesR1_def createServicePrincipal_def exampleAppInfo_def)
  have spG: "grantsAll (createServicePrincipal exampleGraph (AppInfo.appId exampleAppInfo))
      = (1, Inr ''SP'')"
    by (simp add: grantsAll_def createServicePrincipal_def exampleAppInfo_def)
  have tR: "tasks exampleGraph refusesR1 ''SP'' threePermissions (0 + 1)
     = [(6, Inr []), (2, Inl (Upstream ''Forbidden'')), (6, Inr [])]"
    by (simp add: tasks_def example_tasks posted_def refusesR1_def grantOAuth2Permission_def
        addRoleToServicePrincipal_def)
  have tG: "tasks exampleGraph grantsAll ''SP'' threePermissions (0 + 1)
     = [(6, Inr []), (6, Inr []), (6, Inr [])]"
    by (simp add: tasks_def example_tasks posted_def grantsAll_def grantOAuth2Permission_def
        addRoleToServicePrincipal_def)
  have aR: "list_ex (\<lambda>p. isl (snd p)) (tasks exampleGraph refusesR1 ''SP'' threePermissions (0 + 1))"
    unfolding tR by simp
  have aG: "list_all (\<lambda>p. \<not> isl (snd p)) (tasks exampleGraph grantsAll ''SP'' threePermissions (0 + 1))"
    unfolding tG by simp
  from consent_fan_out[where adminConsent=consentOption and appPermissions=threePermissions
      and request_post=refusesR1 and g=exampleGraph and appInfo=exampleAppInfo and ?t0.0=1
      and spId="''SP''" and request_post'=grantsAll and now=0
      and l="emptyLogger :: unit logger", OF c spR] spG aR
  have r1: "requests (grantAdminConsent exampleGraph grantsAll threePermissions exampleAppInfo
      consentOption 0 (emptyLogger :: unit logger))
     = requests (grantAdminConsent exampleGraph refusesR1 threePermissions exampleAppInfo
      consentOption 0 (emptyLogger :: unit logger))"
    and r3: "\<exists>t err. granted (grantAdminConsent exampleGraph refusesR1 threePermissions
        exampleAppInfo consentOption 0 (emptyLogger :: unit logger)) = (t, Inl err)
      \<and> (t, Inl err) \<in> set (tasks exampleGraph refusesR1 ''SP'' threePermissions (0 + 1))"
    by blast+
  from r3 have r3': "granted (grantAdminConsent exampleGraph refusesR1 threePermissions
        exampleAppInfo consentOption 0 (emptyLogger :: unit logger))
      = (2, Inl (Upstream ''Forbidden''))"
    unfolding tR by auto
  from consent_fan_out[where adminConsent=consentOption and appPermissions=threePermissions
      and request_post=grantsAll and g=exampleGraph and appInfo=exampleAppInfo and ?t0.0=1
      and spId="''SP''" and now=0
      and l="emptyLogger :: unit logger", OF c spG] aG
  have r2: "granted (grantAdminConsent exampleGraph grantsAll threePermissions exampleAppInfo
      consentOption 0 (emptyLogger :: unit logger))
     = (Max (insert (0 + 1) (set (map fst
          (tasks exampleGraph grantsAll ''SP'' threePermissions (0 + 1))))), Inr exampleAppInfo)"
    by blast
  have m: "Max (insert (0 + 1) (set (map fst
          (tasks exampleGraph grantsAll ''SP'' threePermissions (0 + 1))))) = (6::nat)"
    unfolding tG by simp
  from r1 r2[unfolded m] r3' show ?thesis
    by blast
qed

section \<open>Option sets\<close>

lemma str_includes_append_right: "str_includes s p \<Longrightarrow> str_includes (s @ b) p"
  by (simp add: str_includes_sublist sublist_append)

lemma str_includes_join_between:
  "list_all (str_includes (a @ array_join sep ids @ b)) ids"
  by (simp add: list_all_iff str_includes_join str_includes_append_left
      str_includes_append_right)

lemma messages_name_members:
  "list_all (str_includes (noneMessage s)) s"
  "list_all (str_includes (multipleMessage s)) s"
  using str_includes_join_all[of "''Specify one of: ''" "'', ''" s]
    str_includes_join_between[of "''Specify one of ''" "'', ''" s "'' but not multiple''"]
  by (simp_all add: noneMessage_def multipleMessage_def)

lemma checkOptionSet_None: "checkOptionSet opts s = None \<longleftrightarrow> length (presentMembers opts s) = 1"
  by (cases "length (presentMembers opts s)") (auto simp add: checkOptionSet_def)

lemma set_enforceOptionSets:
  "set (enforceOptionSets opts sets) = {m. \<exists>s \<in> set sets. checkOptionSet opts s = Some m}"
  by (induction sets) (auto split: option.splits)

lemma enforceOptionSets_Nil:
  "enforceOptionSets opts sets = [] \<longleftrightarrow> list_all (\<lambda>s. length (presentMembers opts s) = 1) sets"
proof -
  have "enforceOptionSets opts sets = [] \<longleftrightarrow> set (enforceOptionSets opts sets) = {}"
    by simp
  also have "\<dots> \<longleftrightarrow> (\<forall>s \<in> set sets. checkOptionSet opts s = None)"
    unfolding set_enforceOptionSets by (auto simp add: not_Some_eq[symmetric] simp del: not_Some_eq)
  finally show ?thesis by (simp add: checkOptionSet_None list_all_iff)
qed

text \<open>
  C1. For a descriptor's option sets \<open>sets\<close> and any one of them, \<open>s\<close>: when none of
  the members of \<open>s\<close> is present, or more than one is, the check of \<open>s\<close> fails and the
  enforcement of \<open>sets\<close> fails with that set's message among its failures; both
  messages name every member of \<open>s\<close>; when exactly one member is present the check of
  \<open>s\<close> passes; and the enforcement passes exactly when every set has exactly one member
  present, each set being judged by its own members only.
\<close>

theorem option_sets_enforced:
  "(s \<in> set sets \<and> length (presentMembers opts s) = 0
      \<longrightarrow> checkOptionSet opts s = Some (noneMessage s)
          \<and> noneMessage s \<in> set (enforceOptionSets opts sets))
   \<and> (s \<in> set sets \<and> length (presentMembers opts s) > 1
      \<longrightarrow> checkOptionSet opts s = Some (multipleMessage s)
          \<and> multipleMessage s \<in> set (enforceOptionSets opts sets))
   \<and> list_all (str_includes (noneMessage s)) s
   \<and> list_all (str_includes (multipleMessage s)) s
   \<and> (length (presentMembers opts s) = 1 \<longrightarrow> checkOptionSet opts s = None)
   \<and> ((enforceOptionSets opts sets = [])
        = list_all (\<lambda>s. length (presentMembers opts s) = 1) sets)"
proof (intro conjI impI)
  assume a: "s \<in> set sets \<and> length (presentMembers opts s) = 0"
  then show c: "checkOptionSet opts s = Some (noneMessage s)"
    by (simp add: checkOptionSet_def)
  with a show "noneMessage s \<in> set (enforceOptionSets opts sets)"
    unfolding set_enforceOptionSets by blast
next
  assume a: "s \<in> set sets \<and> length (presentMembers opts s) > 1"
  then show c: "checkOptionSet opts s = Some (multipleMessage s)"
    by (auto simp add: checkOptionSet_def)
  with a show "multipleMessage s \<in> set (enforceOptionSets opts sets)"
    unfolding set_enforceOptionSets by blast
next
  show "list_all (str_includes (noneMessage s)) s"
    and "list_all (str_includes (multipleMessage s)) s"
    by (rule messages_name_members)+
next
  assume "length (presentMembers opts s) = 1"
  then show "checkOptionSet opts s = None" by (simp add: checkOptionSet_None)
next
  show "(enforceOptionSets opts sets = [])
        = list_all (\<lambda>s. length (presentMembers opts s) = 1) sets"
    by (rule enforceOptionSets_Nil)
qed

theorem option_sets_enforced_witness:
  "noneMessage [''channelId'', ''channelName'', ''primary'']
       \<in> set (enforceOptionSets noOptions channelGet_optionSets)
   \<and> noneMessage [''channelId'', ''channelName'', ''primary'']
       = ''Specify one of: channelId, channelName, primary''
   \<and> multipleMessage [''teamId'', ''teamName'']
       \<in> set (enforceOptionSets withBothTeamOptions channelGet_optionSets)
   \<and> checkOptionSet byTeamIdAndChannelName [''teamId'', ''teamName''] = None
   \<and> enforceOptionSets byTeamIdAndChannelName channelGet_optionSets = []"
proof -
  have h1: "[''channelId'', ''channelName'', ''primary''] \<in> set channelGet_optionSets
      \<and> length (presentMembers noOptions [''channelId'', ''channelName'', ''primary'']) = 0"
    by (simp add: channelGet_optionSets_def presentMembers_def noOptions_def)
  have h2: "[''teamId'', ''teamName''] \<in> set channelGet_optionSets
      \<and> length (presentMembers withBothTeamOptions [''teamId'', ''teamName'']) > 1"
    by (simp add: channelGet_optionSets_def presentMembers_def withBothTeamOptions_def)
  have h3: "length (presentMembers byTeamIdAndChannelName [''teamId'', ''teamName'']) = 1"
    by (simp add: presentMembers_def byTeamIdAndChannelName_def)
  have h4: "list_all (\<lambda>s. length (presentMembers byTeamIdAndChannelName s) = 1)
      channelGet_optionSets"
    by (simp add: channelGet_optionSets_def presentMembers_def byTeamIdAndChannelName_def)
  have h5: "noneMessage [''channelId'', ''channelName'', ''primary'']
       = ''Specify one of: channelId, channelName, primary''"
    by (simp add: noneMessage_def)
  from option_sets_enforced[of "[''channelId'', ''channelName'', ''primary'']"
      channelGet_optionSets noOptions] h1
  have c1: "noneMessage [''channelId'', ''channelName'', ''primary'']
       \<in> set (enforceOptionSets noOptions channelGet_optionSets)"
    by blast
  from option_sets_enforced[of "[''teamId'', ''teamName'']"
      channelGet_optionSets withBothTeamOptions] h2
  have c2: "multipleMessage [''teamId'', ''teamName'']
       \<in> set (enforceOptionSets withBothTeamOptions channelGet_optionSets)"
    by blast
  from option_sets_enforced[of "[''teamId'', ''teamName'']"
      channelGet_optionSets byTeamIdAndChannelName] h3 h4
  have c3: "checkOptionSet byTeamIdAndChannelName [''teamId'', ''teamName''] = None
      \<and> enforceOptionSets byTeamIdAndChannelName channelGet_optionSets = []"
    by blast
  from c1 c2 c3 h5 show ?thesis by blast
qed

section \<open>The validation pipeline\<close>

lemma stateBefore_simps:
  "stateBefore vs opts s 0 = s"
  "stateBefore (v # vs) opts s (Suc k) = stateBefore vs opts (snd (v opts s)) k"
  by (simp_all add: stateBefore_def)

lemma answerAt_simps:
  "answerAt (v # vs) opts s 0 = fst (v opts s)"
  "answerAt (v # vs) opts s (Suc k) = answerAt vs opts (snd (v opts s)) k"
  by (simp_all add: answerAt_def stateBefore_simps)

lemma runValidators_first_failure:
  "k < length vs \<Longrightarrow> (\<forall>j<k. answerAt vs opts s j = None) \<Longrightarrow> answerAt vs opts s k = Some failure
   \<Longrightarrow> fst (runValidators vs i opts s) = [i..<i + Suc k]
     \<and> fst (snd (runValidators vs i opts s)) = Some failure"
proof (induction vs arbitrary: k s i)
  case Nil
  then show ?case by simp
next
  case (Cons v vs)
  show ?case
  proof (cases k)
    case 0
    with Cons.prems show ?thesis
      by (cases "v opts s") (simp add: answerAt_simps)
  next
    case (Suc k')
    from Cons.prems Suc have p0: "fst (v opts s) = None"
      using answerAt_simps(1)[of v vs opts s] by auto
    from Cons.prems Suc have "\<forall>j<k'. answerAt vs opts (snd (v opts s)) j = None"
      using answerAt_simps(2)[of v vs opts s] by (metis Suc_less_eq)
    moreover from Cons.prems Suc have "answerAt vs opts (snd (v opts s)) k' = Some failure"
      by (simp add: answerAt_simps)
    moreover from Cons.prems Suc have "k' < length vs" by simp
    ultimately have ih: "fst (runValidators vs (Suc i) opts (snd (v opts s)))
        = [Suc i..<Suc i + Suc k']
      \<and> fst (snd (runValidators vs (Suc i) opts (snd (v opts s)))) = Some failure"
      using Cons.IH[of k' "snd (v opts s)" "Suc i"] by blast
    from p0 ih Suc show ?thesis
      by (cases "v opts s") (simp add: case_prod_unfold upt_rec)
  qed
qed

lemma runValidators_all_pass:
  "(\<forall>j<length vs. answerAt vs opts s j = None)
   \<Longrightarrow> runValidators vs i opts s
       = ([i..<i + length vs], None, stateBefore vs opts s (length vs))"
proof (induction vs arbitrary: s i)
  case Nil
  then show ?case by (simp add: stateBefore_simps)
next
  case (Cons v vs)
  from Cons.prems have p0: "fst (v opts s) = None"
    using answerAt_simps(1)[of v vs opts s] by auto
  from Cons.prems have "\<forall>j<length vs. answerAt vs opts (snd (v opts s)) j = None"
    using answerAt_simps(2)[of v vs opts s] by (metis Suc_less_eq length_Cons)
  from Cons.IH[OF this, of "Suc i"] p0 show ?case
    by (cases "v opts s") (simp add: stateBefore_simps upt_rec)
qed

lemma executeCommand_validation_failure:
  "enforceOptionSets opts (optionSets d) = []
   \<Longrightarrow> fst (snd (runValidators (validators d) 0 opts s)) = Some failure
   \<Longrightarrow> executeCommand d ask opts s
       = \<lparr>validatorsRun = fst (runValidators (validators d) 0 opts s), telemetry = [],
          prompts = [], actionRuns = 0, outcome = Failure ValidationFailure failure\<rparr>"
  by (cases "runValidators (validators d) 0 opts s") (simp add: executeCommand_def)

lemma executeCommand_action:
  "enforceOptionSets opts (optionSets d) = []
   \<Longrightarrow> runValidators (validators d) 0 opts s = (invoked, None, s')
   \<Longrightarrow> \<not> destructive d \<or> truthy (opts (bypassFlag d)) \<or> ask (confirmMessage d)
   \<Longrightarrow> validatorsRun (executeCommand d ask opts s) = invoked
     \<and> actionRuns (executeCommand d ask opts s) = 1
     \<and> outcome (executeCommand d ask opts s)
       = (case action d opts s' of
            Inl e \<Rightarrow> Failure (fst (normalizer d e)) (snd (normalizer d e))
          | Inr p \<Rightarrow> Success (Some p))"
  by (auto simp add: executeCommand_def)

text \<open>
  C2. When the validator at position \<open>k\<close> is the first to answer with a failure string,
  the validators that ran are those at positions \<open>0\<close> to \<open>k\<close>, in that order, so that
  every validator before \<open>k\<close> ran and none after it did; the pipeline's verdict is
  exactly the string validator \<open>k\<close> returned, the invocation ends with that string as
  its error, and the action is not invoked. When every validator passes, all of them
  ran, in order, and the action is invoked (once the option sets have passed and the
  confirmation gate, if the command has one, lets it through).
\<close>

theorem validation_pipeline:
  "(k < length (validators d) \<and> (\<forall>j<k. answerAt (validators d) opts s j = None)
      \<and> answerAt (validators d) opts s k = Some failure
     \<longrightarrow> fst (runValidators (validators d) 0 opts s) = [0..<Suc k]
         \<and> fst (snd (runValidators (validators d) 0 opts s)) = Some failure)
   \<and> (enforceOptionSets opts (optionSets d) = []
      \<and> k < length (validators d) \<and> (\<forall>j<k. answerAt (validators d) opts s j = None)
      \<and> answerAt (validators d) opts s k = Some failure
     \<longrightarrow> validatorsRun (executeCommand d ask opts s) = [0..<Suc k]
         \<and> outcome (executeCommand d ask opts s) = Failure ValidationFailure failure
         \<and> actionRuns (executeCommand d ask opts s) = 0)
   \<and> ((\<forall>j<length (validators d). answerAt (validators d) opts s j = None)
     \<longrightarrow> fst (runValidators (validators d) 0 opts s) = [0..<length (validators d)]
         \<and> fst (snd (runValidators (validators d) 0 opts s)) = None)
   \<and> (enforceOptionSets opts (optionSets d) = []
      \<and> (\<forall>j<length (validators d). answerAt (validators d) opts s j = None)
      \<and> (\<not> destructive d \<or> truthy (opts (bypassFlag d)) \<or> ask (confirmMessage d))
     \<longrightarrow> validatorsRun (executeCommand d ask opts s) = [0..<length (validators d)]
         \<and> actionRuns (executeCommand d ask opts s) = 1
         \<and> outcome (executeCommand d ask opts s)
           = (case action d opts (stateBefore (validators d) opts s (length (validators d))) of
                Inl e \<Rightarrow> Failure (fst (normalizer d e)) (snd (normalizer d e))
              | Inr p \<Rightarrow> Success (Some p)))"
proof (intro conjI impI)
  assume a: "k < length (validators d) \<and> (\<forall>j<k. answerAt (validators d) opts s j = None)
      \<and> answerAt (validators d) opts s k = Some failure"
  from runValidators_first_failure[of k "validators d" opts s failure 0] a
  show "fst (runValidators (validators d) 0 opts s) = [0..<Suc k]"
    and "fst (snd (runValidators (validators d) 0 opts s)) = Some failure"
    by simp_all
next
  assume a: "enforceOptionSets opts (optionSets d) = []
      \<and> k < length (validators d) \<and> (\<forall>j<k. answerAt (validators d) opts s j = None)
      \<and> answerAt (validators d) opts s k = Some failure"
  from runValidators_first_failure[of k "validators d" opts s failure 0] a
  have r: "fst (runValidators (validators d) 0 opts s) = [0..<Suc k]"
    "fst (snd (runValidators (validators d) 0 opts s)) = Some failure"
    by simp_all
  from a have e: "enforceOptionSets opts (optionSets d) = []" by blast
  from executeCommand_validation_failure[where opts=opts and d=d and s=s and ask=ask
      and failure=failure, OF e r(2)] r(1)
  show "validatorsRun (executeCommand d ask opts s) = [0..<Suc k]"
    and "outcome (executeCommand d ask opts s) = Failure ValidationFailure failure"
    and "actionRuns (executeCommand d ask opts s) = 0"
    by simp_all
next
  assume a: "\<forall>j<length (validators d). answerAt (validators d) opts s j = None"
  from runValidators_all_pass[OF a, of 0]
  show "fst (runValidators (validators d) 0 opts s) = [0..<length (validators d)]"
    and "fst (snd (runValidators (validators d) 0 opts s)) = None"
    by simp_all
next
  assume a: "enforceOptionSets opts (optionSets d) = []
      \<and> (\<forall>j<length (validators d). answerAt (validators d) opts s j = None)
      \<and> (\<not> destructive d \<or> truthy (opts (bypassFlag d)) \<or> ask (confirmMessage d))"
  then have r: "runValidators (validators d) 0 opts s
      = ([0..<length (validators d)], None,
         stateBefore (validators d) opts s (length (validators d)))"
    using runValidators_all_pass[of "validators d" opts s 0] by simp
  from a have e: "enforceOptionSets opts (optionSets d) = []"
    and g: "\<not> destructive d \<or> truthy (opts (bypassFlag d)) \<or> ask (confirmMessage d)"
    by blast+
  from executeCommand_action[where opts=opts and d=d and s=s and ask=ask
      and invoked="[0..<length (validators d)]"
      and s'="stateBefore (validators d) opts s (length (validators d))", OF e r g]
  show "validatorsRun (executeCommand d ask opts s) = [0..<length (validators d)]"
    and "actionRuns (executeCommand d ask opts s) = 1"
    and "outcome (executeCommand d ask opts s)
           = (case action d opts (stateBefore (validators d) opts s (length (validators d))) of
                Inl e \<Rightarrow> Failure (fst (normalizer d e)) (snd (normalizer d e))
              | Inr p \<Rightarrow> Success (Some p))"
    by blast+
qed


theorem validation_pipeline_witness:
  "validatorsRun (executeCommand exampleDescriptor declines withCertificate None) = [0, Suc 0]
   \<and> outcome (executeCommand exampleDescriptor declines withCertificate None)
     = Failure ValidationFailure ''Certificate file not found''
   \<and> actionRuns (executeCommand exampleDescriptor declines withCertificate None) = 0
   \<and> validatorsRun (executeCommand passingDescriptor declines withCertificate None)
     = [0, Suc 0]
   \<and> actionRuns (executeCommand passingDescriptor declines withCertificate None) = 1
   \<and> outcome (executeCommand passingDescriptor declines withCertificate None)
     = Success (Some ''My app'')"
proof -
  have v: "certificateValidator withCertificate None = (Some ''Certificate file not found'', None)"
    by (simp add: certificateValidator_def appAdd_validator_def optionChecks_def
        withCertificate_def noSuchFile_def)
  have a0: "answerAt (validators exampleDescriptor) withCertificate None 0 = None"
    by (simp add: exampleDescriptor_def answerAt_simps passes_def)
  have a1: "answerAt (validators exampleDescriptor) withCertificate None (Suc 0)
      = Some ''Certificate file not found''"
    by (simp add: exampleDescriptor_def answerAt_simps passes_def v)
  have h1: "enforceOptionSets withCertificate (optionSets exampleDescriptor) = []
      \<and> Suc 0 < length (validators exampleDescriptor)
      \<and> (\<forall>j<Suc 0. answerAt (validators exampleDescriptor) withCertificate None j = None)
      \<and> answerAt (validators exampleDescriptor) withCertificate None (Suc 0)
        = Some ''Certificate file not found''"
    using a0 a1 by (simp add: exampleDescriptor_def)
  have b0: "answerAt (validators passingDescriptor) withCertificate None 0 = None"
    by (simp add: passingDescriptor_def answerAt_simps passes_def)
  have b1: "answerAt (validators passingDescriptor) withCertificate None (Suc 0) = None"
    by (simp add: passingDescriptor_def answerAt_simps passes_def)
  have l: "length (validators passingDescriptor) = Suc (Suc 0)"
    by (simp add: passingDescriptor_def)
  have h2: "enforceOptionSets withCertificate (optionSets passingDescriptor) = []
      \<and> (\<forall>j<length (validators passingDescriptor).
            answerAt (validators passingDescriptor) withCertificate None j = None)
      \<and> (\<not> destructive passingDescriptor
          \<or> truthy (withCertificate (bypassFlag passingDescriptor))
          \<or> declines (confirmMessage passingDescriptor))"
    unfolding l using b0 b1 by (simp add: passingDescriptor_def less_Suc_eq)
  have s2: "stateBefore (validators passingDescriptor) withCertificate None
      (Suc (Suc 0)) = None"
    by (simp add: passingDescriptor_def stateBefore_simps passes_def)
  have act: "action passingDescriptor withCertificate None = Inr ''My app''"
    by (simp add: passingDescriptor_def nameAction_def withCertificate_def)
  from validation_pipeline[of "Suc 0" exampleDescriptor withCertificate None
      "''Certificate file not found''" declines] h1
  have c1: "validatorsRun (executeCommand exampleDescriptor declines withCertificate None)
      = [0..<Suc (Suc 0)]
    \<and> outcome (executeCommand exampleDescriptor declines withCertificate None)
      = Failure ValidationFailure ''Certificate file not found''
    \<and> actionRuns (executeCommand exampleDescriptor declines withCertificate None) = 0"
    by blast
  from validation_pipeline[of "Suc 0" passingDescriptor withCertificate None
      "''Certificate file not found''" declines] h2
  have c2: "validatorsRun (executeCommand passingDescriptor declines withCertificate None)
      = [0..<length (validators passingDescriptor)]
    \<and> actionRuns (executeCommand passingDescriptor declines withCertificate None) = 1
    \<and> outcome (executeCommand passingDescriptor declines withCertificate None)
      = (case action passingDescriptor withCertificate
             (stateBefore (validators passingDescriptor) withCertificate None
                (length (validators passingDescriptor))) of
           Inl e \<Rightarrow> Failure (fst (normalizer passingDescriptor e))
                     (snd (normalizer passingDescriptor e))
         | Inr p \<Rightarrow> Success (Some p))"
    by blast
  from c1 c2 show ?thesis
    unfolding s2 act l by (simp add: upt_rec)
qed

end
